theory Spec2Isabelle
  imports Main
begin

section \<open>JavaScript values\<close>

text \<open>
  The service is JavaScript (\<^verbatim>\<open>services/TwilioSendGrid.js\<close>). Its data are JSON-like
  values. Numbers are the integers; strings are lists of code units below 256.
\<close>

datatype jsval =
    JUndefined
  | JNull
  | JBool bool
  | JNum int
  | JStr string
  | JArr "jsval list"
  | JObj "(string \<times> jsval) list"

text \<open>What \<^verbatim>\<open>if (v)\<close>, \<^verbatim>\<open>!v\<close>, \<^verbatim>\<open>a && b\<close> and \<^verbatim>\<open>a || b\<close> test.\<close>

fun truthy :: "jsval \<Rightarrow> bool" where
  "truthy JUndefined = False"
| "truthy JNull = False"
| "truthy (JBool b) = b"
| "truthy (JNum n) = (n \<noteq> 0)"
| "truthy (JStr s) = (s \<noteq> [])"
| "truthy (JArr xs) = True"
| "truthy (JObj kvs) = True"

text \<open>
  \<^verbatim>\<open>a === b\<close> between a value read from a response and a value of the caller.
  Primitives are compared by value. Arrays and objects are compared by identity, and an
  object parsed from a response is never the caller's object.
\<close>

fun strict_eq :: "jsval \<Rightarrow> jsval \<Rightarrow> bool" where
  "strict_eq JUndefined JUndefined = True"
| "strict_eq JNull JNull = True"
| "strict_eq (JBool a) (JBool b) = (a = b)"
| "strict_eq (JNum a) (JNum b) = (a = b)"
| "strict_eq (JStr a) (JStr b) = (a = b)"
| "strict_eq a b = False"

text \<open>\<^verbatim>\<open>xs.join(sep)\<close> on an array of strings.\<close>

fun join :: "string \<Rightarrow> string list \<Rightarrow> string" where
  "join sep [] = []"
| "join sep [x] = x"
| "join sep (x # y # ys) = x @ sep @ join sep (y # ys)"

text \<open>
  The text a template literal \<^verbatim>\<open>`${v}`\<close> inserts for a value. An integer is written in
  decimal (as JavaScript does below \<open>10^21\<close>); an array is its elements joined by commas,
  with \<^verbatim>\<open>null\<close> and \<^verbatim>\<open>undefined\<close> elements left empty; a plain object is
  \<^verbatim>\<open>[object Object]\<close>.
\<close>

definition digit_char :: "nat \<Rightarrow> char" where
  "digit_char d = char_of (48 + d)"

fun nat_digits :: "nat \<Rightarrow> string" where
  "nat_digits n = (if n < 10 then [digit_char n] else nat_digits (n div 10) @ [digit_char (n mod 10)])"

definition int_text :: "int \<Rightarrow> string" where
  "int_text i = (if i < 0 then CHR ''-'' # nat_digits (nat (- i)) else nat_digits (nat i))"

fun to_text :: "jsval \<Rightarrow> string" where
  "to_text JUndefined = ''undefined''"
| "to_text JNull = ''null''"
| "to_text (JBool b) = (if b then ''true'' else ''false'')"
| "to_text (JNum n) = int_text n"
| "to_text (JStr s) = s"
| "to_text (JArr xs) =
     join '','' (map (\<lambda>x. if x = JUndefined \<or> x = JNull then [] else to_text x) xs)"
| "to_text (JObj kvs) = ''[object Object]''"

section \<open>Property reads\<close>

text \<open>
  \<^verbatim>\<open>obj[key]\<close> and \<^verbatim>\<open>key in obj\<close> on a plain object follow the prototype chain: a
  key the object does not own is still found when \<^verbatim>\<open>Object.prototype\<close> has it. Such an
  inherited value is a built-in function (for \<^verbatim>\<open>__proto__\<close>, the prototype object):
  it is truthy, and it is no string, boolean, array, \<^verbatim>\<open>null\<close> or \<^verbatim>\<open>undefined\<close>.
\<close>

datatype 'a lookup = Own 'a | Inherited | Absent

definition object_prototype_keys :: "string list" where
  "object_prototype_keys =
     [''constructor'', ''__defineGetter__'', ''__defineSetter__'', ''hasOwnProperty'',
      ''__lookupGetter__'', ''__lookupSetter__'', ''isPrototypeOf'', ''propertyIsEnumerable'',
      ''toString'', ''valueOf'', ''__proto__'', ''toLocaleString'']"

definition get_property :: "(string \<times> 'a) list \<Rightarrow> string \<Rightarrow> 'a lookup" where
  "get_property obj key =
     (case map_of obj key of
        Some v \<Rightarrow> Own v
      | None \<Rightarrow> if key \<in> set object_prototype_keys then Inherited else Absent)"

text \<open>\<^verbatim>\<open>key in obj\<close>.\<close>

definition has_property :: "(string \<times> 'a) list \<Rightarrow> string \<Rightarrow> bool" where
  "has_property obj key = (get_property obj key \<noteq> Absent)"






text \<open>
  \<^verbatim>\<open>v?.key\<close> for a key that no prototype has (\<^verbatim>\<open>statusCode\<close>, \<^verbatim>\<open>body\<close>, \<^verbatim>\<open>errors\<close>):
  the own value of an object, \<^verbatim>\<open>undefined\<close> otherwise.
\<close>

fun optional_field :: "jsval \<Rightarrow> string \<Rightarrow> jsval" where
  "optional_field (JObj kvs) key = (case map_of kvs key of Some v \<Rightarrow> v | None \<Rightarrow> JUndefined)"
| "optional_field v key = JUndefined"

section \<open>Errors\<close>

text \<open>
  Every \<^verbatim>\<open>throw\<close> and every rejected promise is a value. \<open>Error m\<close> is
  \<^verbatim>\<open>new Error(m)\<close>; \<open>TypeError m\<close> is what the runtime throws on a property read of
  \<^verbatim>\<open>undefined\<close> or \<^verbatim>\<open>null\<close> and on a call of a non-function; neither has a
  \<^verbatim>\<open>response\<close>. \<open>ResponseError code message response\<close> is an error object with the
  properties \<^verbatim>\<open>code\<close>, \<^verbatim>\<open>message\<close> and \<^verbatim>\<open>response\<close>, the last one any value.
\<close>

datatype js_error =
    Error string
  | TypeError string
  | ResponseError int string jsval

text \<open>\<^verbatim>\<open>err.message\<close>\<close>

fun error_message :: "js_error \<Rightarrow> string" where
  "error_message (Error m) = m"
| "error_message (TypeError m) = m"
| "error_message (ResponseError c m r) = m"

text \<open>\<^verbatim>\<open>err.response\<close>\<close>

fun error_response :: "js_error \<Rightarrow> jsval" where
  "error_response (ResponseError c m r) = r"
| "error_response e = JUndefined"

text \<open>\<^verbatim>\<open>err.response?.statusCode === 429\<close>\<close>

definition isRateLimit :: "js_error \<Rightarrow> bool" where
  "isRateLimit err = strict_eq (optional_field (error_response err) ''statusCode'') (JNum 429)"

text \<open>
  \<^verbatim>\<open>v.key\<close> for a key that no prototype has (\<^verbatim>\<open>result\<close>, \<^verbatim>\<open>name\<close>, \<^verbatim>\<open>id\<close>,
  \<^verbatim>\<open>custom_fields\<close>, \<^verbatim>\<open>message\<close>): a \<^verbatim>\<open>TypeError\<close> on \<^verbatim>\<open>undefined\<close> and \<^verbatim>\<open>null\<close>,
  the own value of an object, \<^verbatim>\<open>undefined\<close> otherwise.
\<close>

definition undefined_read :: "string \<Rightarrow> js_error" where
  "undefined_read key =
     TypeError (''Cannot read properties of undefined (reading '' @ [CHR 0x27] @ key @ [CHR 0x27] @ '')'')"

definition null_read :: "string \<Rightarrow> js_error" where
  "null_read key =
     TypeError (''Cannot read properties of null (reading '' @ [CHR 0x27] @ key @ [CHR 0x27] @ '')'')"

fun get_field :: "jsval \<Rightarrow> string \<Rightarrow> js_error + jsval" where
  "get_field JUndefined key = Inl (undefined_read key)"
| "get_field JNull key = Inl (null_read key)"
| "get_field (JObj kvs) key = Inr (case map_of kvs key of Some v \<Rightarrow> v | None \<Rightarrow> JUndefined)"
| "get_field v key = Inr JUndefined"

text \<open>
  \<^verbatim>\<open>err.response?.body?.errors?.map((e) => e.message).join("; ")\<close>. The chain is
  \<^verbatim>\<open>undefined\<close> when \<^verbatim>\<open>errors\<close> is \<^verbatim>\<open>undefined\<close> or \<^verbatim>\<open>null\<close>. On an array, \<^verbatim>\<open>map\<close> reads
  the \<^verbatim>\<open>message\<close> of each element, a \<^verbatim>\<open>TypeError\<close> on a \<^verbatim>\<open>null\<close> element, and \<^verbatim>\<open>join\<close>
  writes the text of each message, nothing for \<^verbatim>\<open>null\<close> and \<^verbatim>\<open>undefined\<close>. On any other
  value \<^verbatim>\<open>map\<close> is no function: a \<^verbatim>\<open>TypeError\<close>.
\<close>

fun messages_of :: "jsval list \<Rightarrow> js_error + jsval list" where
  "messages_of [] = Inr []"
| "messages_of (e # es) =
     (case get_field e ''message'' of
        Inl err \<Rightarrow> Inl err
      | Inr m \<Rightarrow> (case messages_of es of Inl err \<Rightarrow> Inl err | Inr ms \<Rightarrow> Inr (m # ms)))"

definition array_join :: "string \<Rightarrow> jsval list \<Rightarrow> string" where
  "array_join sep xs = join sep (map (\<lambda>x. if x = JUndefined \<or> x = JNull then [] else to_text x) xs)"

definition joined_messages :: "js_error \<Rightarrow> js_error + jsval" where
  "joined_messages err =
     (case optional_field (optional_field (error_response err) ''body'') ''errors'' of
        JUndefined \<Rightarrow> Inr JUndefined
      | JNull \<Rightarrow> Inr JUndefined
      | JArr es \<Rightarrow>
          (case messages_of es of
             Inl e \<Rightarrow> Inl e
           | Inr ms \<Rightarrow> Inr (JStr (array_join ''; '' ms)))
      | v \<Rightarrow> Inl (TypeError ''err.response?.body?.errors?.map is not a function''))"

text \<open>
  \<^verbatim>\<open>joined || fallback\<close>, as a text: the joined messages, and the fallback when there are
  none or the joined text is empty. An error thrown on the way leaves the \<^verbatim>\<open>catch\<close> block
  as it is.
\<close>

definition merged_message :: "js_error \<Rightarrow> string \<Rightarrow> js_error + string" where
  "merged_message err fallback =
     (case joined_messages err of
        Inl e \<Rightarrow> Inl e
      | Inr v \<Rightarrow> Inr (if truthy v then to_text v else fallback))"

section \<open>The e-mail validator\<close>

text \<open>
  \<^verbatim>\<open>/^[^\s@]+@[^\s@]+\.[^\s@]+$/\<close>: the pattern is a sequence of items, each a literal
  character or one-or-more characters of a class, anchored at both ends.
\<close>

datatype regex_item = Lit char | ClassPlus "char \<Rightarrow> bool"

fun regex_test :: "regex_item list \<Rightarrow> string \<Rightarrow> bool" where
  "regex_test [] s = (s = [])"
| "regex_test (Lit c # items) [] = False"
| "regex_test (Lit c # items) (x # xs) = (x = c \<and> regex_test items xs)"
| "regex_test (ClassPlus p # items) [] = False"
| "regex_test (ClassPlus p # items) (x # xs) =
     (p x \<and> (regex_test items xs \<or> regex_test (ClassPlus p # items) xs))"

text \<open>
  \<^verbatim>\<open>\s\<close> among the code units below 256: tab, line feed, vertical tab, form feed,
  carriage return, space and the no-break space.
\<close>

definition is_whitespace :: "char \<Rightarrow> bool" where
  "is_whitespace c = (c \<in> {CHR 0x09, CHR 0x0A, CHR 0x0B, CHR 0x0C, CHR 0x0D, CHR 0x20, CHR 0xA0})"

definition not_space_at :: "char \<Rightarrow> bool" where
  "not_space_at c = (\<not> is_whitespace c \<and> c \<noteq> CHR ''@'')"

definition emailRegex :: "regex_item list" where
  "emailRegex =
     [ClassPlus not_space_at, Lit (CHR ''@''), ClassPlus not_space_at, Lit (CHR ''.''),
      ClassPlus not_space_at]"

definition isValidEmail :: "string \<Rightarrow> bool" where
  "isValidEmail email = regex_test emailRegex email"

text \<open>
  The form \<^verbatim>\<open>local@domain.tld\<close> of the specification, read in its narrowest sense: three
  non-empty parts, none with whitespace or an at-sign.
\<close>

definition email_form :: "string \<Rightarrow> bool" where
  "email_form s =
     (\<exists>local domain tld.
        s = local @ [CHR ''@''] @ domain @ [CHR ''.''] @ tld
        \<and> local \<noteq> [] \<and> domain \<noteq> [] \<and> tld \<noteq> []
        \<and> (\<forall>c \<in> set (local @ domain @ tld). \<not> is_whitespace c \<and> c \<noteq> CHR ''@''))"


section \<open>The template registry\<close>

text \<open>\<^verbatim>\<open>config/emailTemplatesMap.js\<close>: the registry, in the order it is written.\<close>

record template_config =
  templateId :: string
  path :: string
  supportsLooping :: bool
  requiredFields :: "string list"
  description :: string
  customFieldTypes :: "(string \<times> string) list option"

definition EmailTemplateMap :: "(string \<times> template_config) list" where
  "EmailTemplateMap =
     [(''new-order-email'',
       \<lparr>templateId = ''d-1234567890abcdef1234567890abcdef'',
        path = ''templates/new-order-email.html'',
        supportsLooping = True,
        requiredFields = [''order_id'', ''user_name'', ''items''],
        description = ''Template for new order notifications with item loop'',
        customFieldTypes =
          Some [(''order_id'', ''string''), (''user_name'', ''string''), (''items'', ''array'')]\<rparr>),
      (''password-reset'',
       \<lparr>templateId = ''d-abcdef1234567890abcdef1234567890'',
        path = ''templates/password-reset.html'',
        supportsLooping = False,
        requiredFields = [''reset_link'', ''user_email''],
        description = ''Password reset email with single link'',
        customFieldTypes = Some [(''reset_link'', ''url''), (''user_email'', ''email'')]\<rparr>),
      (''creator-broadcast'',
       \<lparr>templateId = ''d-broadcast00001234567890abc'',
        path = ''templates/creator-broadcast.html'',
        supportsLooping = False,
        requiredFields = [''creator_name'', ''message_body''],
        description = ''Creator-wide message sent to subscribed fans'',
        customFieldTypes = Some [(''creator_name'', ''string''), (''message_body'', ''html'')]\<rparr>)]"

section \<open>The remote service and the state of the process\<close>

text \<open>
  The remote service is any deterministic machine: a state \<open>'r\<close> and a function that
  answers a request with a response or a rejection and moves to the next state. Every
  operation takes it as its first argument. The process state holds the three static
  caches of the class, the state of the remote service, and the trace of what the
  process did to the outside: the requests it issued and the delays it waited, in order.
\<close>

datatype request =
    ClientRequest string string jsval
  | MailSend jsval

datatype event = Req request | Wait int

record response =
  statusCode :: int
  body :: jsval

text \<open>
  What the HTTP client (\<^verbatim>\<open>@sendgrid/client\<close>, and \<^verbatim>\<open>@sendgrid/mail\<close> on top of it)
  rejects with. When the service answers with an error status, it is the client's
  \<^verbatim>\<open>ResponseError\<close>: \<^verbatim>\<open>code\<close> is the HTTP status, \<^verbatim>\<open>message\<close> the status text, and
  \<^verbatim>\<open>response\<close> the object \<^verbatim>\<open>{ headers, body }\<close>; the status is no property of
  \<^verbatim>\<open>response\<close>. Any other failure (no answer from the service) is an error with a
  message, and without a \<^verbatim>\<open>statusCode\<close> or a \<^verbatim>\<open>body\<close> under \<^verbatim>\<open>response\<close>, the only
  properties this program reads there.
\<close>

datatype rejection =
    HttpError int string jsval jsval
  | RequestFailed string

fun thrown :: "rejection \<Rightarrow> js_error" where
  "thrown (HttpError status statusText headers data) =
     ResponseError status statusText (JObj [(''headers'', headers), (''body'', data)])"
| "thrown (RequestFailed m) = Error m"

type_synonym 'r api = "'r \<Rightarrow> request \<Rightarrow> (rejection + response) \<times> 'r"

record 'r world =
  remote :: 'r
  trace :: "event list"
  templateCache :: "(string \<times> template_config) list option"
  fieldMapCache :: "(string \<times> string) list option"
  listCache :: jsval

type_synonym ('r, 'a) action = "'r world \<Rightarrow> (js_error + 'a) \<times> 'r world"

text \<open>The class as loaded: the three caches are \<^verbatim>\<open>null\<close>.\<close>

definition initial_world :: "'r \<Rightarrow> 'r world" where
  "initial_world r =
     \<lparr>remote = r, trace = [], templateCache = None, fieldMapCache = None, listCache = JNull\<rparr>"

text \<open>\<^verbatim>\<open>await sgClient.request({ method, url, body })\<close>; a request without a body has \<^verbatim>\<open>undefined\<close> there.\<close>

definition sgClient_request :: "'r api \<Rightarrow> string \<Rightarrow> string \<Rightarrow> jsval \<Rightarrow> ('r, response) action" where
  "sgClient_request api method url payload w =
     (case api (remote w) (ClientRequest method url payload) of
        (outcome, r') \<Rightarrow>
          (map_sum thrown id outcome,
           w\<lparr>remote := r', trace := trace w @ [Req (ClientRequest method url payload)]\<rparr>))"

text \<open>\<^verbatim>\<open>await sgMail.send(msg)\<close>\<close>

definition sgMail_send :: "'r api \<Rightarrow> jsval \<Rightarrow> ('r, response) action" where
  "sgMail_send api msg w =
     (case api (remote w) (MailSend msg) of
        (outcome, r') \<Rightarrow>
          (map_sum thrown id outcome, w\<lparr>remote := r', trace := trace w @ [Req (MailSend msg)]\<rparr>))"

text \<open>\<^verbatim>\<open>await new Promise((r) => setTimeout(r, ms))\<close>\<close>

definition wait :: "int \<Rightarrow> 'r world \<Rightarrow> 'r world" where
  "wait ms w = w\<lparr>trace := trace w @ [Wait ms]\<rparr>"

section \<open>Mapping\<close>

definition loadEmailTemplateConfig ::
  "'r world \<Rightarrow> (string \<times> template_config) list \<times> 'r world" where
  "loadEmailTemplateConfig w =
     (case templateCache w of
        None \<Rightarrow> (EmailTemplateMap, w\<lparr>templateCache := Some EmailTemplateMap\<rparr>)
      | Some cached \<Rightarrow> (cached, w))"

text \<open>\<^verbatim>\<open>acc[key] = type\<close>: the own property is replaced, or added last.\<close>

fun assign :: "string \<Rightarrow> 'a \<Rightarrow> (string \<times> 'a) list \<Rightarrow> (string \<times> 'a) list" where
  "assign key v [] = [(key, v)]"
| "assign key v ((k, x) # rest) = (if k = key then (k, v) # rest else (k, x) # assign key v rest)"

text \<open>The \<^verbatim>\<open>reduce\<close> over \<^verbatim>\<open>Object.values(map)\<close>, started from \<^verbatim>\<open>{}\<close>.\<close>

fun reduce_field_types ::
  "(string \<times> string) list \<Rightarrow> template_config list \<Rightarrow> js_error + (string \<times> string) list" where
  "reduce_field_types acc [] = Inr acc"
| "reduce_field_types acc (t # ts) =
     (case customFieldTypes t of
        None \<Rightarrow> Inl (Error (''Missing customFieldTypes in template config for '' @ templateId t))
      | Some types \<Rightarrow>
          reduce_field_types (foldl (\<lambda>acc (key, type). assign key type acc) acc types) ts)"

definition buildFieldTypeFromEmailTemplateConfig :: "('r, (string \<times> string) list) action" where
  "buildFieldTypeFromEmailTemplateConfig w =
     (case fieldMapCache w of
        Some cached \<Rightarrow> (Inr cached, w)
      | None \<Rightarrow>
          (case loadEmailTemplateConfig w of
             (config, w1) \<Rightarrow>
               (case reduce_field_types [] (map snd config) of
                  Inl err \<Rightarrow> (Inl err, w1)
                | Inr acc \<Rightarrow> (Inr acc, w1\<lparr>fieldMapCache := Some acc\<rparr>))))"

section \<open>The retry helper\<close>

text \<open>
  \<^verbatim>\<open>_withRetry(fn, retries = 3, delay = 500, maxDelay = 3000)\<close>. The loop counts
  \<open>attempt\<close> from 1 while \<open>attempt \<le> retries\<close>. A run that leaves the loop without a
  \<^verbatim>\<open>return\<close> or a \<^verbatim>\<open>throw\<close> resolves to \<^verbatim>\<open>undefined\<close>: that is \<open>Inr None\<close>.
\<close>

function withRetry_from ::
  "int \<Rightarrow> ('r, 'a) action \<Rightarrow> int \<Rightarrow> int \<Rightarrow> int \<Rightarrow> 'r world \<Rightarrow> (js_error + 'a option) \<times> 'r world" where
  "withRetry_from attempt fn retries delay maxDelay w =
     (if attempt \<le> retries then
        (case fn w of
           (Inr v, w') \<Rightarrow> (Inr (Some v), w')
         | (Inl err, w') \<Rightarrow>
             if \<not> isRateLimit err \<or> attempt = retries then (Inl err, w')
             else withRetry_from (attempt + 1) fn retries delay maxDelay
                    (wait (min (delay * attempt) maxDelay) w'))
      else (Inr None, w))"
  by pat_completeness auto
termination
  by (relation "measure (\<lambda>(attempt, fn, retries, delay, maxDelay, w). nat (retries + 1 - attempt))")
    auto

declare withRetry_from.simps [simp del]

definition withRetry ::
  "('r, 'a) action \<Rightarrow> int \<Rightarrow> int \<Rightarrow> int \<Rightarrow> 'r world \<Rightarrow> (js_error + 'a option) \<times> 'r world" where
  "withRetry fn retries delay maxDelay = withRetry_from 1 fn retries delay maxDelay"

definition default_retries :: int where
  "default_retries = 3"

definition default_delay :: int where
  "default_delay = 500"

definition default_maxDelay :: int where
  "default_maxDelay = 3000"

text \<open>A call that leaves the three parameters out.\<close>

definition withRetry_defaults :: "('r, 'a) action \<Rightarrow> 'r world \<Rightarrow> (js_error + 'a option) \<times> 'r world" where
  "withRetry_defaults fn = withRetry fn default_retries default_delay default_maxDelay"

text \<open>
  \<^verbatim>\<open>const [res] = await this._withRetry(...)\<close>: destructuring \<^verbatim>\<open>undefined\<close> is a
  \<^verbatim>\<open>TypeError\<close>.
\<close>

definition first_of_retry ::
  "(js_error + 'a option) \<times> 'r world \<Rightarrow> (js_error + 'a) \<times> 'r world" where
  "first_of_retry r =
     (case r of
        (Inl err, w) \<Rightarrow> (Inl err, w)
      | (Inr None, w) \<Rightarrow> (Inl (TypeError ''undefined is not iterable (cannot read property Symbol(Symbol.iterator))''), w)
      | (Inr (Some res), w) \<Rightarrow> (Inr res, w))"

section \<open>Sender lists\<close>

definition formatListNameForSender :: "string \<Rightarrow> string" where
  "formatListNameForSender senderId = ''sender_'' @ senderId @ ''_list''"

definition fetchAllSenderLists :: "'r api \<Rightarrow> bool \<Rightarrow> ('r, jsval) action" where
  "fetchAllSenderLists api force w =
     (if truthy (listCache w) \<and> \<not> force then (Inr (listCache w), w)
      else
        (case first_of_retry
                (withRetry_defaults (sgClient_request api ''GET'' ''/v3/marketing/lists'' JUndefined) w) of
           (Inl err, w') \<Rightarrow> (Inl err, w')
         | (Inr res, w') \<Rightarrow>
             (case get_field (body res) ''result'' of
                Inl err \<Rightarrow> (Inl err, w')
              | Inr result \<Rightarrow> (Inr result, w'\<lparr>listCache := result\<rparr>))))"

text \<open>
  \<^verbatim>\<open>lists.find((l) => l.name === listName)\<close>: the first element whose name is the
  list name, \<^verbatim>\<open>undefined\<close> when there is none; a \<^verbatim>\<open>TypeError\<close> when an element
  visited on the way is \<^verbatim>\<open>null\<close> or \<^verbatim>\<open>undefined\<close>, and when the receiver is no array.
\<close>

fun find_by_name :: "string \<Rightarrow> jsval list \<Rightarrow> js_error + jsval" where
  "find_by_name listName [] = Inr JUndefined"
| "find_by_name listName (l # ls) =
     (case get_field l ''name'' of
        Inl err \<Rightarrow> Inl err
      | Inr name \<Rightarrow> if strict_eq name (JStr listName) then Inr l else find_by_name listName ls)"

fun array_find :: "string \<Rightarrow> jsval \<Rightarrow> string \<Rightarrow> js_error + jsval" where
  "array_find receiver (JArr ls) listName = find_by_name listName ls"
| "array_find receiver JUndefined listName = Inl (undefined_read ''find'')"
| "array_find receiver JNull listName = Inl (null_read ''find'')"
| "array_find receiver v listName = Inl (TypeError (receiver @ ''.find is not a function''))"

definition ensureListExistsByName :: "'r api \<Rightarrow> string \<Rightarrow> ('r, jsval) action" where
  "ensureListExistsByName api listName w =
     (case fetchAllSenderLists api True w of
        (Inl err, w1) \<Rightarrow> (Inl err, w1)
      | (Inr allLists, w1) \<Rightarrow>
          (case array_find ''lists'' allLists listName of
             Inl err \<Rightarrow> (Inl err, w1)
           | Inr list \<Rightarrow>
               if \<not> truthy list then
                 (case withRetry_defaults
                         (sgClient_request api ''POST'' ''/v3/marketing/lists''
                            (JObj [(''name'', JStr listName)])) w1 of
                    (Inl err, w2) \<Rightarrow> (Inl err, w2)
                  | (Inr created, w2) \<Rightarrow>
                      (case fetchAllSenderLists api True (wait 1000 w2) of
                         (Inl err, w3) \<Rightarrow> (Inl err, w3)
                       | (Inr newLists, w3) \<Rightarrow>
                           (case array_find ''newLists'' newLists listName of
                              Inl err \<Rightarrow> (Inl err, w3)
                            | Inr list' \<Rightarrow>
                                if \<not> truthy list' then
                                  (Inl (Error (''List creation failed after retry: '' @ listName)), w3)
                                else (Inr list', w3))))
               else (Inr list, w1)))"

text \<open>The \<^verbatim>\<open>poll\<close> closure of \<^verbatim>\<open>ensureSenderListExists\<close>.\<close>

definition poll :: "'r api \<Rightarrow> string \<Rightarrow> ('r, jsval) action" where
  "poll api listName w =
     (case fetchAllSenderLists api True w of
        (Inl err, w') \<Rightarrow> (Inl err, w')
      | (Inr allLists, w') \<Rightarrow>
          (case array_find ''lists'' allLists listName of
             Inl err \<Rightarrow> (Inl err, w')
           | Inr verified \<Rightarrow>
               if \<not> truthy verified then (Inl (Error ''List not yet verified''), w')
               else (Inr verified, w')))"

definition ensureSenderListExists :: "'r api \<Rightarrow> string \<Rightarrow> ('r, jsval) action" where
  "ensureSenderListExists api senderId w =
     (case ensureListExistsByName api (formatListNameForSender senderId) w of
        (Inl err, w1) \<Rightarrow> (Inl err, w1)
      | (Inr list, w1) \<Rightarrow>
          (case withRetry (poll api (formatListNameForSender senderId)) 5 500 1000 w1 of
             (Inl err, w2) \<Rightarrow>
               (Inl (Error (''List creation failed: '' @ formatListNameForSender senderId)), w2)
           | (Inr None, w2) \<Rightarrow> (Inr JUndefined, w2)
           | (Inr (Some verified), w2) \<Rightarrow> (Inr verified, w2)))"

section \<open>Subscribe and unsubscribe\<close>









section \<open>Sending\<close>

text \<open>
  \<^verbatim>\<open>cc && (!Array.isArray(cc) || cc.some((email) => !this._isValidEmail(email)))\<close>; the
  regular expression tests the text of each element.
\<close>

fun invalid_address_list :: "jsval \<Rightarrow> bool" where
  "invalid_address_list (JArr xs) = list_ex (\<lambda>email. \<not> isValidEmail (to_text email)) xs"
| "invalid_address_list v = truthy v"

text \<open>The loop over \<^verbatim>\<open>Object.entries(dynamicTemplateData)\<close>: the first error thrown, if any.\<close>

fun check_field_types :: "(string \<times> string) list \<Rightarrow> (string \<times> jsval) list \<Rightarrow> js_error option" where
  "check_field_types types [] = None"
| "check_field_types types ((field, v) # rest) =
     (case get_property types field of
        Own expected \<Rightarrow>
          if expected = [] then check_field_types types rest
          else if v = JNull then check_field_types types rest
          else if expected = ''string'' \<and> (case v of JStr s \<Rightarrow> False | _ \<Rightarrow> True) then
            Some (Error (''Invalid type for '' @ field @ '': expected string''))
          else if expected = ''boolean'' \<and> (case v of JBool b \<Rightarrow> False | _ \<Rightarrow> True) then
            Some (Error (''Invalid type for '' @ field @ '': expected boolean''))
          else if expected = ''array'' \<and> (case v of JArr xs \<Rightarrow> False | _ \<Rightarrow> True) then
            Some (Error (''Invalid type for '' @ field @ '': expected array''))
          else check_field_types types rest
      | Inherited \<Rightarrow> check_field_types types rest
      | Absent \<Rightarrow> check_field_types types rest)"

text \<open>
  The same loop when the template may lack \<^verbatim>\<open>customFieldTypes\<close>: then the first
  \<^verbatim>\<open>customFieldTypes[field]\<close> is a read of \<^verbatim>\<open>undefined\<close>.
\<close>

fun check_custom_fields ::
  "(string \<times> string) list option \<Rightarrow> (string \<times> jsval) list \<Rightarrow> js_error option" where
  "check_custom_fields (Some types) entries = check_field_types types entries"
| "check_custom_fields None [] = None"
| "check_custom_fields None ((field, v) # rest) = Some (undefined_read field)"

text \<open>
  \<^verbatim>\<open>sendSimpleEmail({ to, from, templateKey, dynamicTemplateData, cc, bcc })\<close>, with the
  addresses strings and the template data a plain object, as documented. A template key
  that only \<^verbatim>\<open>Object.prototype\<close> has reads a built-in there, whose \<^verbatim>\<open>requiredFields\<close>
  is \<^verbatim>\<open>undefined\<close>.
\<close>

definition sendSimpleEmail ::
  "'r api \<Rightarrow> string \<Rightarrow> string \<Rightarrow> string \<Rightarrow> (string \<times> jsval) list \<Rightarrow> jsval \<Rightarrow> jsval
     \<Rightarrow> ('r, response) action" where
  "sendSimpleEmail api to from templateKey dynamicTemplateData cc bcc w =
     (if \<not> isValidEmail to then (Inl (Error (''Invalid recipient email: '' @ to)), w)
      else if \<not> isValidEmail from then (Inl (Error (''Invalid sender email: '' @ from)), w)
      else if invalid_address_list cc then (Inl (Error ''Invalid CC email list''), w)
      else if invalid_address_list bcc then (Inl (Error ''Invalid BCC email list''), w)
      else
        (case loadEmailTemplateConfig w of
           (config, w1) \<Rightarrow>
             (case get_property config templateKey of
                Absent \<Rightarrow> (Inl (Error (''Unknown templateKey: '' @ templateKey)), w1)
              | Inherited \<Rightarrow>
                  (Inl (undefined_read ''filter''), w1)
              | Own template \<Rightarrow>
                  if filter (\<lambda>field. \<not> has_property dynamicTemplateData field)
                       (requiredFields template) \<noteq> [] then
                    (Inl (Error (''Missing required template fields: ''
                                 @ join '', ''
                                     (filter (\<lambda>field. \<not> has_property dynamicTemplateData field)
                                        (requiredFields template)))), w1)
                  else
                    (case check_custom_fields (customFieldTypes template) dynamicTemplateData of
                       Some err \<Rightarrow> (Inl err, w1)
                     | None \<Rightarrow>
                         (case sgMail_send api
                                 (JObj [(''to'', JStr to), (''from'', JStr from),
                                        (''templateId'', JStr (templateId template)),
                                        (''dynamicTemplateData'', JObj dynamicTemplateData),
                                        (''cc'', cc), (''bcc'', bcc)]) w1 of
                            (Inl err, w2) \<Rightarrow>
                              (Inl (Error (''Failed to send email: '' @ error_message err)), w2)
                          | (Inr response, w2) \<Rightarrow> (Inr response, w2))))))"

text \<open>
  \<^verbatim>\<open>sendCampaignEmail({ listId, tag, templateKey, dynamicData, sendAt })\<close>, with
  \<open>senderId\<close> the text of \<^verbatim>\<open>dynamicData.senderId\<close>, \<open>envSenderId\<close> the integer that
  \<^verbatim>\<open>parseInt(process.env.SENDGRID_SENDER_ID)\<close> reads and \<open>now\<close> the reading of
  \<^verbatim>\<open>Date.now()\<close>. The body of the campaign request is evaluated before the request is
  issued: that is where the template key is read.
\<close>

definition create_segment :: "'r api \<Rightarrow> string \<Rightarrow> string \<Rightarrow> string \<Rightarrow> ('r, jsval) action" where
  "create_segment api segmentName listId tag w =
     (case (case sgClient_request api ''POST'' ''/v3/marketing/segments''
                   (JObj [(''name'', JStr segmentName),
                          (''list_ids'', JArr [JStr listId]),
                          (''conditions'',
                             JArr [JObj [(''field'', JStr (''custom_fields.'' @ tag)),
                                         (''operator'', JStr ''equals''),
                                         (''value'', JBool True)]])]) w of
              (Inl err, w1) \<Rightarrow> (Inl err, w1)
            | (Inr segmentRes, w1) \<Rightarrow> (get_field (body segmentRes) ''id'', w1)) of
        (Inl err, w1) \<Rightarrow>
          (case merged_message err (error_message err) of
             Inl thrown_in_catch \<Rightarrow> (Inl thrown_in_catch, w1)
           | Inr m \<Rightarrow> (Inl (Error (''Failed to create segment: '' @ m)), w1))
      | (Inr segmentId, w1) \<Rightarrow> (Inr segmentId, w1))"

definition sendCampaignEmail ::
  "'r api \<Rightarrow> int \<Rightarrow> int \<Rightarrow> string \<Rightarrow> string \<Rightarrow> string \<Rightarrow> string \<Rightarrow> jsval \<Rightarrow> ('r, jsval) action" where
  "sendCampaignEmail api envSenderId now listId tag templateKey senderId sendAt w =
     (case buildFieldTypeFromEmailTemplateConfig w of
        (Inl err, w0) \<Rightarrow> (Inl err, w0)
      | (Inr customFieldMapping, w0) \<Rightarrow>
          if (case get_property customFieldMapping tag of
                Own tagType \<Rightarrow> tagType = []
              | Inherited \<Rightarrow> False
              | Absent \<Rightarrow> True) then
            (Inl (Error (''Invalid tag: '' @ tag)), w0)
          else
            (case create_segment api
                    (''segment_'' @ listId @ ''_'' @ tag @ ''__sender_'' @ senderId) listId tag w0 of
               (Inl err, w1) \<Rightarrow> (Inl err, w1)
             | (Inr segmentId, w1) \<Rightarrow>
                 (case loadEmailTemplateConfig w1 of
                    (config, w2) \<Rightarrow>
                      (case (case get_property config templateKey of
                               Absent \<Rightarrow> Inl (undefined_read ''templateId'')
                             | Inherited \<Rightarrow> Inr JUndefined
                             | Own template \<Rightarrow> Inr (JStr (templateId template))) of
                         Inl err \<Rightarrow> (Inl err, w2)
                       | Inr template_id \<Rightarrow>
                           (case sgClient_request api ''POST'' ''/v3/marketing/singlesends''
                                   (JObj [(''name'', JStr (''Campaign_'' @ templateKey @ ''_'' @ int_text now)),
                                          (''send_to'', JObj [(''segment_ids'', JArr [segmentId])]),
                                          (''email_config'',
                                             JObj [(''sender_id'', JNum envSenderId),
                                                   (''template_id'', template_id)])]) w2 of
                              (Inl err, w3) \<Rightarrow> (Inl err, w3)
                            | (Inr campaignRes, w3) \<Rightarrow>
                                (case get_field (body campaignRes) ''id'' of
                                   Inl err \<Rightarrow> (Inl err, w3)
                                 | Inr campaignId \<Rightarrow>
                                     (case sgClient_request api ''POST''
                                             (''/v3/marketing/singlesends/'' @ to_text campaignId @ ''/schedule'')
                                             (JObj [(''send_at'', if truthy sendAt then sendAt else JStr ''now'')]) w3 of
                                        (Inl err, w4) \<Rightarrow> (Inl err, w4)
                                      | (Inr scheduled, w4) \<Rightarrow>
                                          (Inr (JObj [(''campaignId'', campaignId),
                                                      (''segmentId'', segmentId)]), w4))))))))"

section \<open>Remote services for concrete runs\<close>

text \<open>
  A remote service that answers the requests it receives with the outcomes of a script,
  in order, whatever the requests are.
\<close>

definition scripted :: "(rejection + response) list api" where
  "scripted script rq =
     (case script of
        [] \<Rightarrow> (Inl (RequestFailed ''no outcome scripted''), [])
      | outcome # rest \<Rightarrow> (outcome, rest))"

definition ok :: "jsval \<Rightarrow> rejection + response" where
  "ok b = Inr \<lparr>statusCode = 200, body = b\<rparr>"

text \<open>
  The rejection of the client when the service answers a request with HTTP status 429 and
  the error body of its API.
\<close>

definition rate_limited :: "rejection + response" where
  "rate_limited =
     Inl (HttpError 429 ''Too Many Requests'' (JObj [])
            (JObj [(''errors'', JArr [JObj [(''field'', JNull), (''message'', JStr ''too many requests'')]])]))"

text \<open>The roster query and the create request of the list operations.\<close>

definition roster_query :: request where
  "roster_query = ClientRequest ''GET'' ''/v3/marketing/lists'' JUndefined"


definition roster_of :: "jsval list \<Rightarrow> rejection + response" where
  "roster_of ls = ok (JObj [(''result'', JArr ls)])"

definition sender_list :: "string \<Rightarrow> string \<Rightarrow> jsval" where
  "sender_list ident listName = JObj [(''id'', JStr ident), (''name'', JStr listName)]"

section \<open>Counting create requests\<close>

text \<open>The requests of a trace that create a list: \<^verbatim>\<open>POST /v3/marketing/lists\<close>.\<close>

fun is_create :: "event \<Rightarrow> bool" where
  "is_create (Req (ClientRequest method url payload)) =
     (method = ''POST'' \<and> url = ''/v3/marketing/lists'')"
| "is_create e = False"

definition count_creates :: "event list \<Rightarrow> nat" where
  "count_creates tr = length (filter is_create tr)"

section \<open>The type set of the specification\<close>

text \<open>
  What the specification calls a runtime value whose type matches the declaration, over
  the type set string, boolean, array; every other declaration is matched by every value.
\<close>

definition type_matches :: "string \<Rightarrow> jsval \<Rightarrow> bool" where
  "type_matches expected v =
     (if expected = ''string'' then (case v of JStr s \<Rightarrow> True | _ \<Rightarrow> False)
      else if expected = ''boolean'' then (case v of JBool b \<Rightarrow> True | _ \<Rightarrow> False)
      else if expected = ''array'' then (case v of JArr xs \<Rightarrow> True | _ \<Rightarrow> False)
      else True)"

section \<open>The expected value of a custom field\<close>




section \<open>Concrete runs\<close>

text \<open>
  A sender list that the roster shows when \<^verbatim>\<open>ensureListExistsByName\<close> asks, that the
  next roster query (the first poll) does not show, and that the query after it shows again.
\<close>

definition stale_roster_script :: "(rejection + response) list" where
  "stale_roster_script =
     [roster_of [sender_list ''L1'' ''sender_123_list''],
      roster_of [],
      roster_of [sender_list ''L1'' ''sender_123_list'']]"





text \<open>
  The field type map that \<^verbatim>\<open>buildFieldTypeFromEmailTemplateConfig\<close> builds from the
  shipped registry.
\<close>

definition shipped_field_types :: "(string \<times> string) list" where
  "shipped_field_types =
     [(''order_id'', ''string''), (''user_name'', ''string''), (''items'', ''array''),
      (''reset_link'', ''url''), (''user_email'', ''email''),
      (''creator_name'', ''string''), (''message_body'', ''html'')]"

text \<open>
  A remote service that accepts the segment, the campaign and the schedule request of
  \<^verbatim>\<open>sendCampaignEmail\<close>.
\<close>

definition campaign_script :: "(rejection + response) list" where
  "campaign_script =
     [ok (JObj [(''id'', JStr ''seg-1'')]), ok (JObj [(''id'', JStr ''camp-1'')]), ok JNull]"

text \<open>The segment request of \<^verbatim>\<open>sendCampaignEmail\<close>.\<close>

definition segment_request :: "string \<Rightarrow> string \<Rightarrow> string \<Rightarrow> request" where
  "segment_request listId tag senderId =
     ClientRequest ''POST'' ''/v3/marketing/segments''
       (JObj [(''name'', JStr (''segment_'' @ listId @ ''_'' @ tag @ ''__sender_'' @ senderId)),
              (''list_ids'', JArr [JStr listId]),
              (''conditions'',
                 JArr [JObj [(''field'', JStr (''custom_fields.'' @ tag)),
                             (''operator'', JStr ''equals''),
                             (''value'', JBool True)]])])"

text \<open>The campaign request and the schedule request of \<^verbatim>\<open>sendCampaignEmail\<close>.\<close>

definition campaign_request :: "string \<Rightarrow> int \<Rightarrow> jsval \<Rightarrow> int \<Rightarrow> jsval \<Rightarrow> request" where
  "campaign_request templateKey now segmentId envSenderId template_id =
     ClientRequest ''POST'' ''/v3/marketing/singlesends''
       (JObj [(''name'', JStr (''Campaign_'' @ templateKey @ ''_'' @ int_text now)),
              (''send_to'', JObj [(''segment_ids'', JArr [segmentId])]),
              (''email_config'',
                 JObj [(''sender_id'', JNum envSenderId), (''template_id'', template_id)])])"

definition schedule_request :: "jsval \<Rightarrow> jsval \<Rightarrow> request" where
  "schedule_request campaignId sendAt =
     ClientRequest ''POST'' (''/v3/marketing/singlesends/'' @ to_text campaignId @ ''/schedule'')
       (JObj [(''send_at'', if truthy sendAt then sendAt else JStr ''now'')])"

lemma regex_test_ClassPlus:
  "regex_test (ClassPlus p # items) s =
     (\<exists>a b. s = a @ b \<and> a \<noteq> [] \<and> (\<forall>c \<in> set a. p c) \<and> regex_test items b)"
proof (induction s)
  case Nil
  then show ?case by simp
next
  case (Cons x xs)
  show ?case
  proof
    assume m: "regex_test (ClassPlus p # items) (x # xs)"
    then have px: "p x" by simp
    from m consider "regex_test items xs" | "regex_test (ClassPlus p # items) xs" by auto
    then show "\<exists>a b. x # xs = a @ b \<and> a \<noteq> [] \<and> (\<forall>c \<in> set a. p c) \<and> regex_test items b"
    proof cases
      case 1
      with px have "x # xs = [x] @ xs \<and> [x] \<noteq> [] \<and> (\<forall>c \<in> set [x]. p c) \<and> regex_test items xs"
        by simp
      then show ?thesis by blast
    next
      case 2
      with Cons.IH obtain a b where
        ab: "xs = a @ b" "a \<noteq> []" "\<forall>c \<in> set a. p c" "regex_test items b"
        by auto
      with px have
        "x # xs = (x # a) @ b \<and> x # a \<noteq> [] \<and> (\<forall>c \<in> set (x # a). p c) \<and> regex_test items b"
        by simp
      then show ?thesis by blast
    qed
  next
    assume "\<exists>a b. x # xs = a @ b \<and> a \<noteq> [] \<and> (\<forall>c \<in> set a. p c) \<and> regex_test items b"
    then obtain a b where
      ab: "x # xs = a @ b" "a \<noteq> []" "\<forall>c \<in> set a. p c" "regex_test items b"
      by auto
    from ab(1,2) obtain a' where a': "a = x # a'" "xs = a' @ b"
      by (cases a) auto
    with ab(3) have px: "p x" by simp
    show "regex_test (ClassPlus p # items) (x # xs)"
    proof (cases "a' = []")
      case True
      with a' ab(4) px show ?thesis by simp
    next
      case False
      with a' ab(3,4) have "\<exists>a b. xs = a @ b \<and> a \<noteq> [] \<and> (\<forall>c \<in> set a. p c) \<and> regex_test items b"
        by auto
      with Cons.IH px show ?thesis by simp
    qed
  qed
qed

lemma regex_test_ClassPlusI:
  "a \<noteq> [] \<Longrightarrow> \<forall>c \<in> set a. p c \<Longrightarrow> regex_test items b
     \<Longrightarrow> regex_test (ClassPlus p # items) (a @ b)"
  unfolding regex_test_ClassPlus[of p items "a @ b"] by blast

lemma regex_test_Lit:
  "regex_test (Lit c # items) s = (\<exists>b. s = c # b \<and> regex_test items b)"
  by (cases s) auto

lemma isValidEmail_iff_email_form: "isValidEmail s = email_form s"
proof
  assume "isValidEmail s"
  then obtain a b where a: "s = a @ b" "a \<noteq> []" "\<forall>c \<in> set a. not_space_at c"
    and b: "regex_test [Lit (CHR ''@''), ClassPlus not_space_at, Lit (CHR ''.''), ClassPlus not_space_at] b"
    unfolding isValidEmail_def emailRegex_def regex_test_ClassPlus by blast
  from b obtain b' where b': "b = CHR ''@'' # b'"
    and r: "regex_test [ClassPlus not_space_at, Lit (CHR ''.''), ClassPlus not_space_at] b'"
    unfolding regex_test_Lit by blast
  from r obtain d e where d: "b' = d @ e" "d \<noteq> []" "\<forall>c \<in> set d. not_space_at c"
    and e: "regex_test [Lit (CHR ''.''), ClassPlus not_space_at] e"
    unfolding regex_test_ClassPlus by blast
  from e obtain e' where e': "e = CHR ''.'' # e'" and t: "regex_test [ClassPlus not_space_at] e'"
    unfolding regex_test_Lit by blast
  from t obtain f g where f: "e' = f @ g" "f \<noteq> []" "\<forall>c \<in> set f. not_space_at c"
    and g: "regex_test [] g"
    unfolding regex_test_ClassPlus by blast
  from g have "g = []" by simp
  with a b' d e' f have
    "s = a @ [CHR ''@''] @ d @ [CHR ''.''] @ f \<and> a \<noteq> [] \<and> d \<noteq> [] \<and> f \<noteq> []
       \<and> (\<forall>c \<in> set (a @ d @ f). \<not> is_whitespace c \<and> c \<noteq> CHR ''@'')"
    by (auto simp: not_space_at_def)
  then show "email_form s" unfolding email_form_def
    by (intro exI[of _ a] exI[of _ d] exI[of _ f])
next
  assume "email_form s"
  then obtain l d t where s: "s = l @ [CHR ''@''] @ d @ [CHR ''.''] @ t"
    and ne: "l \<noteq> []" "d \<noteq> []" "t \<noteq> []"
    and ok: "\<forall>c \<in> set (l @ d @ t). \<not> is_whitespace c \<and> c \<noteq> CHR ''@''"
    unfolding email_form_def by (elim exE conjE)
  from ok have okl: "\<forall>c \<in> set l. not_space_at c" and okd: "\<forall>c \<in> set d. not_space_at c"
    and okt: "\<forall>c \<in> set t. not_space_at c"
    by (auto simp: not_space_at_def)
  have "regex_test [] []" by simp
  from regex_test_ClassPlusI[OF ne(3) okt this]
  have "regex_test [ClassPlus not_space_at] t" by simp
  then have "regex_test [Lit (CHR ''.''), ClassPlus not_space_at] (CHR ''.'' # t)"
    by simp
  from regex_test_ClassPlusI[OF ne(2) okd this]
  have "regex_test [Lit (CHR ''@''), ClassPlus not_space_at, Lit (CHR ''.''), ClassPlus not_space_at]
      (CHR ''@'' # d @ CHR ''.'' # t)"
    by simp
  from regex_test_ClassPlusI[OF ne(1) okl this]
  have "regex_test emailRegex (l @ CHR ''@'' # d @ CHR ''.'' # t)"
    by (simp add: emailRegex_def)
  with s show "isValidEmail s" by (simp add: isValidEmail_def)
qed


section \<open>Lemmas on the retry helper\<close>

lemma isRateLimit_Error [simp]: "\<not> isRateLimit (Error m)"
  by (simp add: isRateLimit_def)

lemma isRateLimit_TypeError [simp]: "\<not> isRateLimit (TypeError m)"
  by (simp add: isRateLimit_def)

lemma isRateLimit_thrown [simp]: "\<not> isRateLimit (thrown rejected)"
  by (cases rejected) (simp_all add: isRateLimit_def)

lemma isRateLimit_iff:
  "isRateLimit err \<longleftrightarrow>
     (\<exists>code message kvs. err = ResponseError code message (JObj kvs)
        \<and> map_of kvs ''statusCode'' = Some (JNum 429))"
proof (cases err)
  case (ResponseError c m r)
  show ?thesis
  proof (cases r)
    case (JObj kvs)
    show ?thesis
    proof (cases "map_of kvs ''statusCode''")
      case None
      with ResponseError JObj show ?thesis by (simp add: isRateLimit_def)
    next
      case (Some v)
      with ResponseError JObj show ?thesis by (cases v) (simp_all add: isRateLimit_def)
    qed
  qed (simp_all add: ResponseError isRateLimit_def)
qed simp_all


lemma withRetry_from_success:
  "attempt \<le> n \<Longrightarrow> fn w = (Inr v, w') \<Longrightarrow> withRetry_from attempt fn n d m w = (Inr (Some v), w')"
  by (subst withRetry_from.simps) simp

lemma withRetry_from_other_failure:
  "attempt \<le> n \<Longrightarrow> fn w = (Inl err, w') \<Longrightarrow> \<not> isRateLimit err
     \<Longrightarrow> withRetry_from attempt fn n d m w = (Inl err, w')"
  by (subst withRetry_from.simps) simp

lemma withRetry_from_last_failure:
  "fn w = (Inl err, w') \<Longrightarrow> withRetry_from n fn n d m w = (Inl err, w')"
  by (subst withRetry_from.simps) simp

lemma withRetry_from_rate_limited:
  "attempt < n \<Longrightarrow> fn w = (Inl err, w') \<Longrightarrow> isRateLimit err
     \<Longrightarrow> withRetry_from attempt fn n d m w =
           withRetry_from (attempt + 1) fn n d m (wait (min (d * attempt) m) w')"
  by (subst withRetry_from.simps) simp

lemma withRetry_from_always_rate_limited:
  "attempt \<le> n \<Longrightarrow> isRateLimit err
     \<Longrightarrow> withRetry_from attempt (\<lambda>w. (Inl err, w)) n d m w =
           (Inl err, w\<lparr>trace := trace w @ map (\<lambda>k. Wait (min (d * k) m)) [attempt..n - 1]\<rparr>)"
proof (induction "nat (n - attempt)" arbitrary: attempt w)
  case 0
  then have "attempt = n" by simp
  then show ?case
    by (simp add: withRetry_from_last_failure)
next
  case (Suc k)
  then have lt: "attempt < n" and k: "k = nat (n - (attempt + 1))" and le: "attempt + 1 \<le> n"
    by auto
  have up: "[attempt..n - 1] = attempt # [attempt + 1..n - 1]"
    using lt by (simp add: upto_rec1)
  show ?case
    using Suc.hyps(1)[OF k le Suc.prems(2), of "wait (min (d * attempt) m) w"]
    by (simp add: withRetry_from_rate_limited[OF lt refl Suc.prems(2)] up wait_def)
qed


section \<open>Lemmas on the list operations\<close>

lemma count_creates_append [simp]:
  "count_creates (xs @ ys) = count_creates xs + count_creates ys"
  by (simp add: count_creates_def)

lemma count_creates_wait [simp]: "count_creates (trace (wait ms w)) = count_creates (trace w)"
  by (simp add: wait_def count_creates_def)






lemma withRetry_defaults_first_attempt:
  assumes "fn w = (r, w')" and "\<not> (case r of Inl e \<Rightarrow> isRateLimit e | Inr v \<Rightarrow> False)"
  shows "withRetry_defaults fn w = (map_sum id Some r, w')"
proof (cases r)
  case (Inr v)
  with assms(1) show ?thesis
    by (simp add: withRetry_defaults_def withRetry_def default_retries_def withRetry_from_success)
next
  case (Inl e)
  with assms show ?thesis
    by (simp add: withRetry_defaults_def withRetry_def default_retries_def withRetry_from_other_failure)
qed

lemma withRetry_defaults_request:
  assumes "api (remote w) (ClientRequest method url payload) = (outcome, r')"
  shows "withRetry_defaults (sgClient_request api method url payload) w =
           (map_sum thrown Some outcome,
            w\<lparr>remote := r', trace := trace w @ [Req (ClientRequest method url payload)]\<rparr>)"
proof -
  have "withRetry_defaults (sgClient_request api method url payload) w =
          (map_sum id Some (map_sum thrown id outcome),
           w\<lparr>remote := r', trace := trace w @ [Req (ClientRequest method url payload)]\<rparr>)"
  proof (rule withRetry_defaults_first_attempt)
    show "sgClient_request api method url payload w =
          (map_sum thrown id outcome,
           w\<lparr>remote := r', trace := trace w @ [Req (ClientRequest method url payload)]\<rparr>)"
      using assms(1) by (simp add: sgClient_request_def)
    show "\<not> (case map_sum thrown id outcome of Inl e \<Rightarrow> isRateLimit e | Inr v \<Rightarrow> False)"
      by (cases outcome) simp_all
  qed
  then show ?thesis by (cases outcome) simp_all
qed


lemma fetchAllSenderLists_fresh:
  assumes "api (remote w) roster_query = (Inr res, r')"
    and "get_field (body res) ''result'' = Inr roster"
  shows "fetchAllSenderLists api True w =
           (Inr roster, w\<lparr>remote := r', trace := trace w @ [Req roster_query], listCache := roster\<rparr>)"
  using assms
  by (simp add: fetchAllSenderLists_def first_of_retry_def
      withRetry_defaults_request[where api = api and w = w and outcome = "Inr res" and r' = r']
      roster_query_def)





lemma ensureListExistsByName_found:
  assumes "api (remote w) roster_query = (Inr res, r')"
    and "get_field (body res) ''result'' = Inr roster"
    and "array_find ''lists'' roster listName = Inr l"
    and "truthy l"
  shows "ensureListExistsByName api listName w =
           (Inr l, w\<lparr>remote := r', trace := trace w @ [Req roster_query], listCache := roster\<rparr>)"
  using assms(3,4)
  by (simp add: ensureListExistsByName_def fetchAllSenderLists_fresh[where api=api and w=w, OF assms(1,2)])



lemma poll_miss:
  assumes "api (remote w) roster_query = (Inr res, r')"
    and "get_field (body res) ''result'' = Inr roster"
    and "array_find ''lists'' roster listName = Inr v"
    and "\<not> truthy v"
  shows "poll api listName w =
           (Inl (Error ''List not yet verified''),
            w\<lparr>remote := r', trace := trace w @ [Req roster_query], listCache := roster\<rparr>)"
  by (simp only: poll_def fetchAllSenderLists_fresh[where api=api and w=w, OF assms(1,2)]
        prod.case sum.case assms(3,4) not_False_eq_True if_True)

lemma ensureSenderListExists_poll_miss:
  assumes "ensureListExistsByName api (formatListNameForSender senderId) w = (Inr l, w1)"
    and "api (remote w1) roster_query = (Inr res, r2)"
    and "get_field (body res) ''result'' = Inr roster"
    and "array_find ''lists'' roster (formatListNameForSender senderId) = Inr v"
    and "\<not> truthy v"
  shows "ensureSenderListExists api senderId w =
           (Inl (Error (''List creation failed: '' @ formatListNameForSender senderId)),
            w1\<lparr>remote := r2, trace := trace w1 @ [Req roster_query], listCache := roster\<rparr>)"
proof -
  have "withRetry (poll api (formatListNameForSender senderId)) 5 500 1000 w1 =
          (Inl (Error ''List not yet verified''),
           w1\<lparr>remote := r2, trace := trace w1 @ [Req roster_query], listCache := roster\<rparr>)"
    unfolding withRetry_def
    by (rule withRetry_from_other_failure[where fn = "poll api (formatListNameForSender senderId)" and w = w1,
        OF _ poll_miss[where api=api and w=w1, OF assms(2-5)]]) simp_all
  then show ?thesis
    by (simp only: ensureSenderListExists_def assms(1) prod.case sum.case)
qed

section \<open>Lemmas on \<open>sendSimpleEmail\<close>\<close>

lemma loadEmailTemplateConfig_outside [simp]:
  "trace (snd (loadEmailTemplateConfig w)) = trace w"
  "remote (snd (loadEmailTemplateConfig w)) = remote w"
  by (simp_all add: loadEmailTemplateConfig_def split: option.splits)

lemma loadEmailTemplateConfig_shipped:
  "templateCache w = None \<or> templateCache w = Some EmailTemplateMap
     \<Longrightarrow> fst (loadEmailTemplateConfig w) = EmailTemplateMap"
  by (auto simp: loadEmailTemplateConfig_def)

lemma get_property_Own_iff: "get_property obj key = Own v \<longleftrightarrow> map_of obj key = Some v"
  by (simp add: get_property_def split: option.splits)

lemma has_property_iff:
  "has_property obj key \<longleftrightarrow> key \<in> fst ` set obj \<or> key \<in> set object_prototype_keys"
  unfolding has_property_def get_property_def using map_of_eq_None_iff[of obj key]
  by (auto split: option.splits)

text \<open>The operation when the template key names a registry entry.\<close>

lemma sendSimpleEmail_Own:
  assumes "get_property (fst (loadEmailTemplateConfig w)) templateKey = Own template"
  shows "sendSimpleEmail api to from templateKey dynamicTemplateData cc bcc w =
     (if \<not> isValidEmail to then (Inl (Error (''Invalid recipient email: '' @ to)), w)
      else if \<not> isValidEmail from then (Inl (Error (''Invalid sender email: '' @ from)), w)
      else if invalid_address_list cc then (Inl (Error ''Invalid CC email list''), w)
      else if invalid_address_list bcc then (Inl (Error ''Invalid BCC email list''), w)
      else if filter (\<lambda>field. \<not> has_property dynamicTemplateData field) (requiredFields template) \<noteq> []
      then (Inl (Error (''Missing required template fields: ''
                        @ join '', '' (filter (\<lambda>field. \<not> has_property dynamicTemplateData field)
                                        (requiredFields template)))),
            snd (loadEmailTemplateConfig w))
      else (case check_custom_fields (customFieldTypes template) dynamicTemplateData of
              Some err \<Rightarrow> (Inl err, snd (loadEmailTemplateConfig w))
            | None \<Rightarrow>
                (case sgMail_send api
                        (JObj [(''to'', JStr to), (''from'', JStr from),
                               (''templateId'', JStr (templateId template)),
                               (''dynamicTemplateData'', JObj dynamicTemplateData),
                               (''cc'', cc), (''bcc'', bcc)]) (snd (loadEmailTemplateConfig w)) of
                   (Inl err, w2) \<Rightarrow> (Inl (Error (''Failed to send email: '' @ error_message err)), w2)
                 | (Inr response, w2) \<Rightarrow> (Inr response, w2))))"
  using assms by (cases "loadEmailTemplateConfig w") (simp add: sendSimpleEmail_def split: option.splits)

lemma sgMail_send_outside:
  "trace (snd (sgMail_send api msg w)) = trace w @ [Req (MailSend msg)]"
  by (simp add: sgMail_send_def split: prod.splits)

lemma sendSimpleEmail_sent:
  assumes "get_property (fst (loadEmailTemplateConfig w)) templateKey = Own template"
    and "isValidEmail to" and "isValidEmail from"
    and "\<not> invalid_address_list cc" and "\<not> invalid_address_list bcc"
    and "filter (\<lambda>field. \<not> has_property dynamicTemplateData field) (requiredFields template) = []"
    and "check_custom_fields (customFieldTypes template) dynamicTemplateData = None"
  shows "trace (snd (sendSimpleEmail api to from templateKey dynamicTemplateData cc bcc w)) =
           trace w @ [Req (MailSend
              (JObj [(''to'', JStr to), (''from'', JStr from),
                     (''templateId'', JStr (templateId template)),
                     (''dynamicTemplateData'', JObj dynamicTemplateData),
                     (''cc'', cc), (''bcc'', bcc)]))]"
proof -
  let ?msg = "JObj [(''to'', JStr to), (''from'', JStr from),
                     (''templateId'', JStr (templateId template)),
                     (''dynamicTemplateData'', JObj dynamicTemplateData),
                     (''cc'', cc), (''bcc'', bcc)]"
  let ?w1 = "snd (loadEmailTemplateConfig w)"
  obtain r w2 where s: "sgMail_send api ?msg ?w1 = (r, w2)"
    by (cases "sgMail_send api ?msg ?w1")
  then have "trace w2 = trace w @ [Req (MailSend ?msg)]"
    using sgMail_send_outside[of api ?msg ?w1] by simp
  then show ?thesis
    using assms(2-7) s by (simp add: sendSimpleEmail_Own[OF assms(1)] split: sum.splits)
qed

text \<open>A run that fails in validation leaves the outside untouched.\<close>

lemma sendSimpleEmail_rejected:
  assumes "get_property (fst (loadEmailTemplateConfig w)) templateKey = Own template"
    and "\<not> isValidEmail to \<or> \<not> isValidEmail from \<or> invalid_address_list cc
         \<or> invalid_address_list bcc
         \<or> filter (\<lambda>field. \<not> has_property dynamicTemplateData field) (requiredFields template) \<noteq> []
         \<or> check_custom_fields (customFieldTypes template) dynamicTemplateData \<noteq> None"
  shows "isl (fst (sendSimpleEmail api to from templateKey dynamicTemplateData cc bcc w))
         \<and> trace (snd (sendSimpleEmail api to from templateKey dynamicTemplateData cc bcc w)) = trace w
         \<and> remote (snd (sendSimpleEmail api to from templateKey dynamicTemplateData cc bcc w)) = remote w"
  using assms(2) by (auto simp: sendSimpleEmail_Own[OF assms(1)])

lemma sendSimpleEmail_bad_address:
  assumes "\<not> isValidEmail to \<or> \<not> isValidEmail from \<or> invalid_address_list cc
         \<or> invalid_address_list bcc"
  shows "isl (fst (sendSimpleEmail api to from templateKey dynamicTemplateData cc bcc w))
         \<and> trace (snd (sendSimpleEmail api to from templateKey dynamicTemplateData cc bcc w)) = trace w
         \<and> remote (snd (sendSimpleEmail api to from templateKey dynamicTemplateData cc bcc w)) = remote w"
  using assms by (auto simp: sendSimpleEmail_def)

lemma sendSimpleEmail_unknown_key:
  assumes "get_property (fst (loadEmailTemplateConfig w)) templateKey \<noteq> Own template"
    and "\<forall>t. get_property (fst (loadEmailTemplateConfig w)) templateKey \<noteq> Own t"
  shows "isl (fst (sendSimpleEmail api to from templateKey dynamicTemplateData cc bcc w))
         \<and> trace (snd (sendSimpleEmail api to from templateKey dynamicTemplateData cc bcc w)) = trace w
         \<and> remote (snd (sendSimpleEmail api to from templateKey dynamicTemplateData cc bcc w)) = remote w"
proof (cases "loadEmailTemplateConfig w")
  case (Pair config w1)
  with loadEmailTemplateConfig_outside[of w] have o: "trace w1 = trace w" "remote w1 = remote w" by simp_all
  from assms(2) Pair have "get_property config templateKey = Inherited \<or> get_property config templateKey = Absent"
    by (cases "get_property config templateKey") auto
  with Pair o show ?thesis
    by (auto simp: sendSimpleEmail_def)
qed

lemma check_field_types_not_declared:
  "map_of types field = None \<Longrightarrow>
     check_field_types types ((field, v) # rest) = check_field_types types rest"
  by (simp add: get_property_def)

lemma check_field_types_declared:
  assumes "map_of types field = Some expected"
  shows "check_field_types types ((field, v) # rest) =
           (if expected = [] \<or> v = JNull \<or> type_matches expected v
            then check_field_types types rest
            else Some (Error (''Invalid type for '' @ field @ '': expected '' @ expected)))"
proof -
  have own: "get_property types field = Own expected"
    using assms by (simp add: get_property_Own_iff)
  consider (string) "expected = ''string''" | (boolean) "expected = ''boolean''"
    | (array) "expected = ''array''"
    | (other) "expected \<noteq> ''string''" "expected \<noteq> ''boolean''" "expected \<noteq> ''array''"
    by blast
  then show ?thesis
  proof cases
    case string
    then show ?thesis by (cases v) (simp_all add: own type_matches_def)
  next
    case boolean
    then show ?thesis by (cases v) (simp_all add: own type_matches_def)
  next
    case array
    then show ?thesis by (cases v) (simp_all add: own type_matches_def)
  next
    case other
    then show ?thesis by (simp add: own type_matches_def)
  qed
qed

lemma check_field_types_mismatch:
  assumes "(field, v) \<in> set entries"
    and "map_of types field = Some expected"
    and "expected = ''string'' \<or> expected = ''boolean'' \<or> expected = ''array''"
    and "v \<noteq> JNull"
    and "\<not> type_matches expected v"
  shows "check_field_types types entries \<noteq> None"
  using assms(1)
proof (induction entries)
  case Nil
  then show ?case by simp
next
  case (Cons e rest)
  obtain f x where e: "e = (f, x)" by (cases e)
  show ?case
  proof (cases "e = (field, v)")
    case True
    from assms(3) have "expected \<noteq> []" by auto
    with True assms(2,4,5) show ?thesis
      by (simp only: check_field_types_declared[OF assms(2)]) simp
  next
    case False
    with Cons have rest: "check_field_types types rest \<noteq> None" by simp
    show ?thesis
    proof (cases "map_of types f")
      case None
      with rest e show ?thesis by (simp add: check_field_types_not_declared del: check_field_types.simps)
    next
      case (Some ty)
      with rest e show ?thesis by (simp only: check_field_types_declared[OF Some]) simp
    qed
  qed
qed

lemma check_field_types_pass:
  assumes "\<forall>(field, v) \<in> set entries.
             v = JNull \<or> (\<forall>expected. map_of types field = Some expected \<longrightarrow> type_matches expected v)"
  shows "check_field_types types entries = None"
  using assms
proof (induction entries)
  case Nil
  then show ?case by simp
next
  case (Cons e rest)
  obtain f x where e: "e = (f, x)" by (cases e)
  from Cons have rest: "check_field_types types rest = None" by simp
  from Cons.prems e have h: "x = JNull \<or> (\<forall>expected. map_of types f = Some expected \<longrightarrow> type_matches expected x)"
    by simp
  show ?case
  proof (cases "map_of types f")
    case None
    with rest e show ?thesis by (simp add: check_field_types_not_declared del: check_field_types.simps)
  next
    case (Some ty)
    with h have "x = JNull \<or> type_matches ty x" by simp
    with rest e show ?thesis by (simp only: check_field_types_declared[OF Some]) simp
  qed
qed

lemma check_field_types_untyped:
  assumes "map_of types field = Some expected"
    and "expected \<noteq> ''string''" and "expected \<noteq> ''boolean''" and "expected \<noteq> ''array''"
  shows "check_field_types types ((field, v) # rest) = check_field_types types rest"
  using assms(2-4) by (simp only: check_field_types_declared[OF assms(1)]) (simp add: type_matches_def)

lemma check_field_types_null:
  "check_field_types types ((field, JNull) # rest) = check_field_types types rest"
proof (cases "map_of types field")
  case None
  then show ?thesis by (simp add: check_field_types_not_declared del: check_field_types.simps)
next
  case (Some ty)
  then show ?thesis by (simp only: check_field_types_declared[OF Some]) simp
qed

lemma shipped_required_fields_own:
  assumes "map_of EmailTemplateMap templateKey = Some template"
    and "field \<in> set (requiredFields template)"
  shows "field \<notin> set object_prototype_keys"
proof -
  from assms(1) consider
      "requiredFields template = [''order_id'', ''user_name'', ''items'']"
    | "requiredFields template = [''reset_link'', ''user_email'']"
    | "requiredFields template = [''creator_name'', ''message_body'']"
    by (auto simp: EmailTemplateMap_def split: if_splits)
  then show ?thesis
    using assms(2) by cases (auto simp: object_prototype_keys_def)
qed

lemma shipped_missing_fields:
  assumes "map_of EmailTemplateMap templateKey = Some template"
  shows "filter (\<lambda>field. \<not> has_property entries field) (requiredFields template) =
         filter (\<lambda>field. field \<notin> fst ` set entries) (requiredFields template)"
  by (rule filter_cong[OF refl]) (simp add: has_property_iff shipped_required_fields_own[OF assms])

lemma email_form_at: "email_form s \<Longrightarrow> CHR ''@'' \<in> set s"
  unfolding email_form_def by (elim exE conjE) simp

lemma email_form_dot:
  assumes "email_form s"
  shows "CHR ''.'' \<in> set (dropWhile (\<lambda>c. c \<noteq> CHR ''@'') s)"
proof -
  from assms obtain l d t where s: "s = l @ [CHR ''@''] @ d @ [CHR ''.''] @ t"
    and ok: "\<forall>c \<in> set (l @ d @ t). \<not> is_whitespace c \<and> c \<noteq> CHR ''@''"
    unfolding email_form_def by (elim exE conjE)
  from ok have "\<forall>c \<in> set l. c \<noteq> CHR ''@''" by simp
  then have "dropWhile (\<lambda>c. c \<noteq> CHR ''@'') s = CHR ''@'' # d @ [CHR ''.''] @ t"
    unfolding s by (simp add: dropWhile_append2)
  then show ?thesis by simp
qed

lemma invalid_address_list_member:
  "JStr s \<in> set xs \<Longrightarrow> \<not> isValidEmail s \<Longrightarrow> invalid_address_list (JArr xs)"
  by (simp add: list_ex_iff) (rule bexI[of _ "JStr s"], simp_all)

lemma type_matches_other:
  "expected \<noteq> ''string'' \<Longrightarrow> expected \<noteq> ''boolean'' \<Longrightarrow> expected \<noteq> ''array''
     \<Longrightarrow> type_matches expected v"
  by (simp add: type_matches_def)

section \<open>Lemmas on subscribing and unsubscribing\<close>




lemma merged_message_Error [simp]: "merged_message (Error m) fallback = Inr fallback"
  by (simp add: merged_message_def joined_messages_def)

lemma merged_message_TypeError [simp]: "merged_message (TypeError m) fallback = Inr fallback"
  by (simp add: merged_message_def joined_messages_def)






section \<open>Lemmas on \<open>sendCampaignEmail\<close>\<close>

lemma reduce_shipped: "reduce_field_types [] (map snd EmailTemplateMap) = Inr shipped_field_types"
  by (simp add: EmailTemplateMap_def shipped_field_types_def)

lemma buildFieldType_fresh:
  assumes "fieldMapCache w = None"
    and "templateCache w = None \<or> templateCache w = Some EmailTemplateMap"
  shows "buildFieldTypeFromEmailTemplateConfig w =
           (Inr shipped_field_types,
            w\<lparr>templateCache := Some EmailTemplateMap, fieldMapCache := Some shipped_field_types\<rparr>)"
  using assms
  by (auto simp: buildFieldTypeFromEmailTemplateConfig_def loadEmailTemplateConfig_def reduce_shipped)

lemma buildFieldType_cached:
  "fieldMapCache w = Some m \<Longrightarrow> buildFieldTypeFromEmailTemplateConfig w = (Inr m, w)"
  by (simp add: buildFieldTypeFromEmailTemplateConfig_def)

lemma get_field_error_plain:
  "get_field v key = Inl err \<Longrightarrow> merged_message err fallback = Inr fallback"
  by (cases v) (auto simp: undefined_read_def null_read_def)

lemma create_segment_accepted:
  assumes "api (remote w) (segment_request listId tag senderId) = (Inr res, r')"
  shows "create_segment api (''segment_'' @ listId @ ''_'' @ tag @ ''__sender_'' @ senderId) listId tag w =
     (case get_field (body res) ''id'' of
        Inl err \<Rightarrow> Inl (Error (''Failed to create segment: '' @ error_message err))
      | Inr segmentId \<Rightarrow> Inr segmentId,
      w\<lparr>remote := r', trace := trace w @ [Req (segment_request listId tag senderId)]\<rparr>)"
  using assms
  by (auto simp: create_segment_def sgClient_request_def segment_request_def get_field_error_plain
      split: sum.splits)

section \<open>C1: validation before any remote call\<close>

text \<open>
  C1 states that every validation failure of a send operation, an unknown template key
  among them, is raised before any request is issued, for \<^verbatim>\<open>sendSimpleEmail\<close> and for
  \<^verbatim>\<open>sendCampaignEmail\<close>. \<^verbatim>\<open>sendSimpleEmail\<close> checks the template key before it sends
  (\<^verbatim>\<open>Unknown templateKey\<close>). \<^verbatim>\<open>sendCampaignEmail\<close> has no such check: it reads
  \<^verbatim>\<open>loadEmailTemplateConfig()[templateKey].templateId\<close> when it builds the campaign request,
  after the segment request. Here the tag is a known field and the template key is not in
  the registry: the segment request is issued and accepted, and only then the run ends,
  with a \<^verbatim>\<open>TypeError\<close> on the read of \<^verbatim>\<open>templateId\<close>; the segment stays on the remote
  service.
\<close>

theorem sendCampaignEmail_unknown_template_after_segment:
  "sendCampaignEmail scripted 42 1700000000000 ''L1'' ''order_id'' ''no-such-template'' ''123'' JUndefined
       (initial_world campaign_script) =
     (Inl (undefined_read ''templateId''),
      \<lparr>remote = [ok (JObj [(''id'', JStr ''camp-1'')]), ok JNull],
       trace = [Req (segment_request ''L1'' ''order_id'' ''123'')],
       templateCache = Some EmailTemplateMap,
       fieldMapCache = Some shipped_field_types,
       listCache = JNull\<rparr>)"
proof -
  let ?w0 = "initial_world campaign_script"
  let ?w1 = "?w0\<lparr>templateCache := Some EmailTemplateMap, fieldMapCache := Some shipped_field_types\<rparr>"
  let ?w2 = "?w1\<lparr>remote := [ok (JObj [(''id'', JStr ''camp-1'')]), ok JNull],
                 trace := trace ?w1 @ [Req (segment_request ''L1'' ''order_id'' ''123'')]\<rparr>"
  have b: "buildFieldTypeFromEmailTemplateConfig ?w0 = (Inr shipped_field_types, ?w1)"
    by (rule buildFieldType_fresh) (simp_all add: initial_world_def)
  have t: "get_property shipped_field_types ''order_id'' = Own ''string''"
    by (simp add: get_property_def shipped_field_types_def)
  have s: "create_segment scripted (''segment_'' @ ''L1'' @ ''_'' @ ''order_id'' @ ''__sender_'' @ ''123'')
             ''L1'' ''order_id'' ?w1 = (Inr (JStr ''seg-1''), ?w2)"
    using create_segment_accepted[where api = scripted and w = ?w1 and listId = "''L1''"
        and tag = "''order_id''" and senderId = "''123''"
        and res = "\<lparr>statusCode = 200, body = JObj [(''id'', JStr ''seg-1'')]\<rparr>"
        and r' = "[ok (JObj [(''id'', JStr ''camp-1'')]), ok JNull]"]
    by (simp add: scripted_def initial_world_def campaign_script_def ok_def)
  have l: "loadEmailTemplateConfig ?w2 = (EmailTemplateMap, ?w2)"
    by (simp add: loadEmailTemplateConfig_def)
  have k: "get_property EmailTemplateMap ''no-such-template'' = Absent"
    by (simp add: get_property_def EmailTemplateMap_def object_prototype_keys_def)
  have "sendCampaignEmail scripted 42 1700000000000 ''L1'' ''order_id'' ''no-such-template'' ''123'' JUndefined ?w0 =
     (Inl (undefined_read ''templateId''), ?w2)"
    by (simp add: sendCampaignEmail_def b t s[simplified] loadEmailTemplateConfig_def k)
  then show ?thesis
    by (simp add: initial_world_def campaign_script_def)
qed

section \<open>C2: the verification poll of \<open>ensureSenderListExists\<close>\<close>

text \<open>
  C2 states that the poll re-queries up to 5 times and that each query that does not yet
  show the list is retried, only a miss at the last attempt being the hard failure. The
  poll throws a plain \<^verbatim>\<open>Error("List not yet verified")\<close>, which carries no HTTP status, and
  the retry helper retries only an error that carries the status 429. So the first miss is
  the hard failure. Here the list is shown to \<^verbatim>\<open>ensureListExistsByName\<close>, the first poll misses
  it, and the third roster of the remote, which shows it again, is never asked for: the run
  ends with \<^verbatim>\<open>List creation failed: sender_123_list\<close> after two roster queries and no wait.
\<close>

theorem ensureSenderListExists_fails_on_first_miss:
  "ensureSenderListExists scripted ''123'' (initial_world stale_roster_script) =
     (Inl (Error ''List creation failed: sender_123_list''),
      \<lparr>remote = [roster_of [sender_list ''L1'' ''sender_123_list'']],
       trace = [Req roster_query, Req roster_query],
       templateCache = None, fieldMapCache = None, listCache = JArr []\<rparr>)"
proof -
  let ?l = "sender_list ''L1'' ''sender_123_list''"
  let ?w0 = "initial_world stale_roster_script"
  let ?w1 = "?w0\<lparr>remote := [roster_of [], roster_of [?l]], trace := trace ?w0 @ [Req roster_query],
                 listCache := JArr [?l]\<rparr>"
  have e: "ensureListExistsByName scripted (formatListNameForSender ''123'') ?w0 = (Inr ?l, ?w1)"
    by (rule ensureListExistsByName_found[where res = "\<lparr>statusCode = 200, body = JObj [(''result'', JArr [?l])]\<rparr>"])
      (simp_all add: scripted_def initial_world_def stale_roster_script_def roster_of_def ok_def
        sender_list_def formatListNameForSender_def)
  have "ensureSenderListExists scripted ''123'' ?w0 =
     (Inl (Error (''List creation failed: '' @ formatListNameForSender ''123'')),
      ?w1\<lparr>remote := [roster_of [?l]], trace := trace ?w1 @ [Req roster_query], listCache := JArr []\<rparr>)"
    by (rule ensureSenderListExists_poll_miss[OF e,
          where res = "\<lparr>statusCode = 200, body = JObj [(''result'', JArr [])]\<rparr>" and v = JUndefined])
      (simp_all add: scripted_def roster_of_def ok_def)
  then show ?thesis
    by (simp add: initial_world_def formatListNameForSender_def)
qed

section \<open>C3: the retry helper\<close>

text \<open>
  C3 states that the retry helper retries a failed attempt when the failure carries HTTP
  status 429 and attempts remain, after a wait of \<open>min (d * attempt) m\<close>. The helper
  tests \<^verbatim>\<open>err.response?.statusCode === 429\<close>. The operations this program passes to the
  helper are requests of the HTTP client, and the client's rejection carries the HTTP
  status as \<^verbatim>\<open>err.code\<close>; its \<^verbatim>\<open>err.response\<close> is \<^verbatim>\<open>{ headers, body }\<close>. So the test
  is false on the rejection of an answer with status 429. Here the helper runs the roster
  request of \<^verbatim>\<open>fetchAllSenderLists\<close> with 3 attempts, delay 500 and maximum delay 3000,
  against a service that answers the first request with HTTP 429 and would answer the
  second with the roster: the rejection is propagated from the first attempt, with no wait
  and no second request.
\<close>

theorem withRetry_propagates_http_429:
  "withRetry (sgClient_request scripted ''GET'' ''/v3/marketing/lists'' JUndefined) 3 500 3000
       (initial_world [rate_limited, roster_of []]) =
     (Inl (ResponseError 429 ''Too Many Requests''
             (JObj [(''headers'', JObj []),
                    (''body'',
                       JObj [(''errors'',
                              JArr [JObj [(''field'', JNull),
                                          (''message'', JStr ''too many requests'')]])])])),
      \<lparr>remote = [roster_of []],
       trace = [Req roster_query],
       templateCache = None, fieldMapCache = None, listCache = JNull\<rparr>)"
proof -
  let ?fn = "sgClient_request scripted ''GET'' ''/v3/marketing/lists'' JUndefined"
  let ?w0 = "initial_world [rate_limited, roster_of []]"
  let ?e = "ResponseError 429 ''Too Many Requests''
             (JObj [(''headers'', JObj []),
                    (''body'',
                       JObj [(''errors'',
                              JArr [JObj [(''field'', JNull),
                                          (''message'', JStr ''too many requests'')]])])])"
  have a: "?fn ?w0 = (Inl ?e, ?w0\<lparr>remote := [roster_of []], trace := trace ?w0 @ [Req roster_query]\<rparr>)"
    by (simp add: sgClient_request_def scripted_def initial_world_def rate_limited_def roster_query_def)
  have n: "\<not> isRateLimit ?e"
    by (simp add: isRateLimit_def)
  have "withRetry_from 1 ?fn 3 500 3000 ?w0 =
      (Inl ?e, ?w0\<lparr>remote := [roster_of []], trace := trace ?w0 @ [Req roster_query]\<rparr>)"
    by (rule withRetry_from_other_failure[where fn = ?fn and w = ?w0, OF _ a n]) simp
  then show ?thesis
    by (simp add: withRetry_def initial_world_def)
qed

section \<open>C4: subscribing and unsubscribing\<close>




section \<open>C5: \<open>ensureListExistsByName\<close> called twice\<close>






section \<open>C6: missing required fields\<close>

text \<open>
  C6, as amended. For every template key of the registry and every template data object:
  \<^verbatim>\<open>sendSimpleEmail\<close> fails, with no request issued and the remote service untouched,
  whenever at least one required field of the template is not a key of the data; and when
  the recipient, the sender and the CC and BCC lists pass the address checks, which come
  first, the error is \<^verbatim>\<open>Missing required template fields: \<close> followed by exactly the
  required fields that are not keys of the data, in the order of the registry, joined by a
  comma and a space.
\<close>

theorem sendSimpleEmail_missing_required_fields:
  assumes "templateCache w = None \<or> templateCache w = Some EmailTemplateMap"
    and "map_of EmailTemplateMap templateKey = Some template"
    and "\<exists>field \<in> set (requiredFields template). field \<notin> fst ` set dynamicTemplateData"
  shows "isl (fst (sendSimpleEmail api recipient sender templateKey dynamicTemplateData cc bcc w))
     \<and> trace (snd (sendSimpleEmail api recipient sender templateKey dynamicTemplateData cc bcc w)) = trace w
     \<and> remote (snd (sendSimpleEmail api recipient sender templateKey dynamicTemplateData cc bcc w)) = remote w
     \<and> (isValidEmail recipient \<and> isValidEmail sender
          \<and> \<not> invalid_address_list cc \<and> \<not> invalid_address_list bcc
        \<longrightarrow> fst (sendSimpleEmail api recipient sender templateKey dynamicTemplateData cc bcc w) =
              Inl (Error (''Missing required template fields: ''
                          @ join '', '' (filter (\<lambda>field. field \<notin> fst ` set dynamicTemplateData)
                                          (requiredFields template)))))"
proof -
  have own: "get_property (fst (loadEmailTemplateConfig w)) templateKey = Own template"
    using assms(1,2) by (simp add: loadEmailTemplateConfig_shipped get_property_Own_iff)
  note missing = shipped_missing_fields[OF assms(2), of dynamicTemplateData]
  from assms(3) have ne: "filter (\<lambda>field. field \<notin> fst ` set dynamicTemplateData) (requiredFields template) \<noteq> []"
    by (simp add: filter_empty_conv)
  have "isl (fst (sendSimpleEmail api recipient sender templateKey dynamicTemplateData cc bcc w))
     \<and> trace (snd (sendSimpleEmail api recipient sender templateKey dynamicTemplateData cc bcc w)) = trace w
     \<and> remote (snd (sendSimpleEmail api recipient sender templateKey dynamicTemplateData cc bcc w)) = remote w"
    by (rule sendSimpleEmail_rejected[OF own]) (simp add: missing ne)
  moreover have "isValidEmail recipient \<and> isValidEmail sender
          \<and> \<not> invalid_address_list cc \<and> \<not> invalid_address_list bcc
        \<longrightarrow> fst (sendSimpleEmail api recipient sender templateKey dynamicTemplateData cc bcc w) =
              Inl (Error (''Missing required template fields: ''
                          @ join '', '' (filter (\<lambda>field. field \<notin> fst ` set dynamicTemplateData)
                                          (requiredFields template))))"
    using ne by (simp add: sendSimpleEmail_Own[OF own] missing)
  ultimately show ?thesis by blast
qed

theorem sendSimpleEmail_missing_required_fields_witness:
  "fst (sendSimpleEmail scripted ''test@example.com'' ''sender@example.com'' ''new-order-email''
          [(''order_id'', JStr ''123ABC'')] JUndefined JUndefined
          (initial_world [ok JNull]))
     = Inl (Error ''Missing required template fields: user_name, items'')
   \<and> trace (snd (sendSimpleEmail scripted ''test@example.com'' ''sender@example.com'' ''new-order-email''
          [(''order_id'', JStr ''123ABC'')] JUndefined JUndefined
          (initial_world [ok JNull]))) = []
   \<and> remote (snd (sendSimpleEmail scripted ''test@example.com'' ''sender@example.com'' ''new-order-email''
          [(''order_id'', JStr ''123ABC'')] JUndefined JUndefined
          (initial_world [ok JNull]))) = [ok JNull]"
proof -
  have v: "isValidEmail ''test@example.com''" "isValidEmail ''sender@example.com''"
    by (simp_all add: isValidEmail_def emailRegex_def not_space_at_def is_whitespace_def)
  have t: "map_of EmailTemplateMap ''new-order-email'' =
      Some \<lparr>templateId = ''d-1234567890abcdef1234567890abcdef'',
        path = ''templates/new-order-email.html'',
        supportsLooping = True,
        requiredFields = [''order_id'', ''user_name'', ''items''],
        description = ''Template for new order notifications with item loop'',
        customFieldTypes =
          Some [(''order_id'', ''string''), (''user_name'', ''string''), (''items'', ''array'')]\<rparr>"
    by (simp add: EmailTemplateMap_def)
  show ?thesis
    using sendSimpleEmail_missing_required_fields[OF _ t,
        of "initial_world [ok JNull]" "[(''order_id'', JStr ''123ABC'')]"
           scripted "''test@example.com''" "''sender@example.com''" JUndefined JUndefined] v
    by (simp add: initial_world_def)
qed

text \<open>
  C6 as stated (the error message lists the missing fields, for every call with a missing
  field) fails on the address checks that come first: with a sender address that the
  validator rejects, the call fails with \<^verbatim>\<open>Invalid sender email\<close>, and the message names
  none of the two required fields that the data lacks.
\<close>

theorem sendSimpleEmail_invalid_sender_counterexample:
  "filter (\<lambda>field. field \<notin> fst ` set [(''order_id'', JStr ''123ABC'')])
       [''order_id'', ''user_name'', ''items''] = [''user_name'', ''items'']
   \<and> sendSimpleEmail scripted ''test@example.com'' ''not-an-address'' ''new-order-email''
         [(''order_id'', JStr ''123ABC'')] JUndefined JUndefined (initial_world [ok JNull]) =
       (Inl (Error ''Invalid sender email: not-an-address''), initial_world [ok JNull])
   \<and> fst (sendSimpleEmail scripted ''test@example.com'' ''not-an-address'' ''new-order-email''
         [(''order_id'', JStr ''123ABC'')] JUndefined JUndefined (initial_world [ok JNull])) \<noteq>
       Inl (Error ''Missing required template fields: user_name, items'')"
  by (simp add: sendSimpleEmail_def isValidEmail_def emailRegex_def not_space_at_def is_whitespace_def)

section \<open>C7: invalid addresses\<close>

text \<open>
  C7. Every string that is not of the form \<^verbatim>\<open>local@domain.tld\<close> (three non-empty parts
  without whitespace) is rejected by the validator, and \<^verbatim>\<open>sendSimpleEmail\<close> fails, with no
  request issued and the remote service untouched, when such a string is the recipient, the
  sender, or an element of the CC or of the BCC array. A string without an at-sign, and a
  string with no dot from its first at-sign on, are not of the form.
\<close>

theorem invalid_email_rejected:
  "(\<not> email_form s \<longrightarrow>
      \<not> isValidEmail s
      \<and> (recipient = s \<or> sender = s \<or> cc = JArr xs \<and> JStr s \<in> set xs
           \<or> bcc = JArr ys \<and> JStr s \<in> set ys
         \<longrightarrow> isl (fst (sendSimpleEmail api recipient sender templateKey dynamicTemplateData cc bcc w))
             \<and> trace (snd (sendSimpleEmail api recipient sender templateKey dynamicTemplateData cc bcc w))
                 = trace w
             \<and> remote (snd (sendSimpleEmail api recipient sender templateKey dynamicTemplateData cc bcc w))
                 = remote w))
   \<and> (CHR ''@'' \<notin> set s \<longrightarrow> \<not> email_form s)
   \<and> (CHR ''.'' \<notin> set (dropWhile (\<lambda>c. c \<noteq> CHR ''@'') s) \<longrightarrow> \<not> email_form s)"
proof (intro conjI impI)
  assume n: "\<not> email_form s"
  then show v: "\<not> isValidEmail s" by (simp add: isValidEmail_iff_email_form)
  assume "recipient = s \<or> sender = s \<or> cc = JArr xs \<and> JStr s \<in> set xs
           \<or> bcc = JArr ys \<and> JStr s \<in> set ys"
  with v have bad: "\<not> isValidEmail recipient \<or> \<not> isValidEmail sender \<or> invalid_address_list cc
         \<or> invalid_address_list bcc"
    using invalid_address_list_member[of s xs] invalid_address_list_member[of s ys] by blast
  note r = sendSimpleEmail_bad_address[OF bad, of api templateKey dynamicTemplateData w]
  from r show "isl (fst (sendSimpleEmail api recipient sender templateKey dynamicTemplateData cc bcc w))"
    by (rule conjunct1)
  from r show "trace (snd (sendSimpleEmail api recipient sender templateKey dynamicTemplateData cc bcc w)) = trace w"
    by simp
  from r show "remote (snd (sendSimpleEmail api recipient sender templateKey dynamicTemplateData cc bcc w)) = remote w"
    by simp
next
  assume "CHR ''@'' \<notin> set s"
  then show "\<not> email_form s" using email_form_at by blast
next
  assume "CHR ''.'' \<notin> set (dropWhile (\<lambda>c. c \<noteq> CHR ''@'') s)"
  then show "\<not> email_form s" using email_form_dot by blast
qed

theorem invalid_email_rejected_witness:
  "\<not> isValidEmail ''userexample.com''
   \<and> isl (fst (sendSimpleEmail scripted ''userexample.com'' ''sender@example.com'' ''new-order-email''
             [] JUndefined JUndefined (initial_world [ok JNull])))
   \<and> trace (snd (sendSimpleEmail scripted ''userexample.com'' ''sender@example.com'' ''new-order-email''
             [] JUndefined JUndefined (initial_world [ok JNull]))) = []
   \<and> \<not> isValidEmail ''user@examplecom''
   \<and> isl (fst (sendSimpleEmail scripted ''test@example.com'' ''sender@example.com'' ''new-order-email''
             [] JUndefined (JArr [JStr ''a@b.co'', JStr ''user@examplecom''])
             (initial_world [ok JNull])))
   \<and> trace (snd (sendSimpleEmail scripted ''test@example.com'' ''sender@example.com'' ''new-order-email''
             [] JUndefined (JArr [JStr ''a@b.co'', JStr ''user@examplecom''])
             (initial_world [ok JNull]))) = []"
proof -
  note a = invalid_email_rejected[of "''userexample.com''" "''userexample.com''" "''sender@example.com''"
      JUndefined "[]" JUndefined "[]" scripted "''new-order-email''" "[]" "initial_world [ok JNull]"]
  note b = invalid_email_rejected[of "''user@examplecom''" "''test@example.com''" "''sender@example.com''"
      JUndefined "[]" "JArr [JStr ''a@b.co'', JStr ''user@examplecom'']"
      "[JStr ''a@b.co'', JStr ''user@examplecom'']" scripted "''new-order-email''" "[]"
      "initial_world [ok JNull]"]
  have na: "\<not> email_form ''userexample.com''"
    by (rule a[THEN conjunct2, THEN conjunct1, THEN mp]) simp
  have nb: "\<not> email_form ''user@examplecom''"
    by (rule b[THEN conjunct2, THEN conjunct2, THEN mp]) simp
  from a[THEN conjunct1, THEN mp, OF na] b[THEN conjunct1, THEN mp, OF nb]
  show ?thesis by (simp add: initial_world_def)
qed

section \<open>C8: the tag check of \<open>sendCampaignEmail\<close>\<close>

text \<open>
  C8 states that every tag that is a key of no template's \<^verbatim>\<open>customFieldTypes\<close> fails with
  \<^verbatim>\<open>Invalid tag\<close> before any request. The check is \<^verbatim>\<open>!customFieldMapping[tag]\<close> on a
  map built from \<^verbatim>\<open>{}\<close>, and a plain object inherits the properties of
  \<^verbatim>\<open>Object.prototype\<close>: for the tag \<^verbatim>\<open>constructor\<close> the read gives the built-in
  \<^verbatim>\<open>Object\<close>, which is truthy. No template declares \<^verbatim>\<open>constructor\<close>, the check lets it
  pass, and the segment, campaign and schedule requests are all issued.
\<close>

theorem sendCampaignEmail_accepts_inherited_tag:
  "list_all (\<lambda>(key, template).
               case customFieldTypes template of
                 None \<Rightarrow> True
               | Some types \<Rightarrow> map_of types ''constructor'' = None) EmailTemplateMap
   \<and> sendCampaignEmail scripted 42 1700000000000 ''L1'' ''constructor'' ''creator-broadcast'' ''123''
        JUndefined (initial_world campaign_script) =
     (Inr (JObj [(''campaignId'', JStr ''camp-1''), (''segmentId'', JStr ''seg-1'')]),
      \<lparr>remote = [],
       trace = [Req (segment_request ''L1'' ''constructor'' ''123''),
                Req (campaign_request ''creator-broadcast'' 1700000000000 (JStr ''seg-1'') 42
                       (JStr ''d-broadcast00001234567890abc'')),
                Req (schedule_request (JStr ''camp-1'') JUndefined)],
       templateCache = Some EmailTemplateMap,
       fieldMapCache = Some shipped_field_types,
       listCache = JNull\<rparr>)"
proof
  show "list_all (\<lambda>(key, template).
               case customFieldTypes template of
                 None \<Rightarrow> True
               | Some types \<Rightarrow> map_of types ''constructor'' = None) EmailTemplateMap"
    by (simp add: EmailTemplateMap_def)
  let ?w0 = "initial_world campaign_script"
  let ?w1 = "?w0\<lparr>templateCache := Some EmailTemplateMap, fieldMapCache := Some shipped_field_types\<rparr>"
  let ?w2 = "?w1\<lparr>remote := [ok (JObj [(''id'', JStr ''camp-1'')]), ok JNull],
                 trace := trace ?w1 @ [Req (segment_request ''L1'' ''constructor'' ''123'')]\<rparr>"
  have b: "buildFieldTypeFromEmailTemplateConfig ?w0 = (Inr shipped_field_types, ?w1)"
    by (rule buildFieldType_fresh) (simp_all add: initial_world_def)
  have t: "get_property shipped_field_types ''constructor'' = Inherited"
    by (simp add: get_property_def shipped_field_types_def object_prototype_keys_def)
  have s: "create_segment scripted (''segment_'' @ ''L1'' @ ''_'' @ ''constructor'' @ ''__sender_'' @ ''123'')
             ''L1'' ''constructor'' ?w1 = (Inr (JStr ''seg-1''), ?w2)"
    using create_segment_accepted[where api = scripted and w = ?w1 and listId = "''L1''"
        and tag = "''constructor''" and senderId = "''123''"
        and res = "\<lparr>statusCode = 200, body = JObj [(''id'', JStr ''seg-1'')]\<rparr>"
        and r' = "[ok (JObj [(''id'', JStr ''camp-1'')]), ok JNull]"]
    by (simp add: scripted_def initial_world_def campaign_script_def ok_def)
  have k: "get_property EmailTemplateMap ''creator-broadcast'' =
      Own \<lparr>templateId = ''d-broadcast00001234567890abc'',
        path = ''templates/creator-broadcast.html'',
        supportsLooping = False,
        requiredFields = [''creator_name'', ''message_body''],
        description = ''Creator-wide message sent to subscribed fans'',
        customFieldTypes = Some [(''creator_name'', ''string''), (''message_body'', ''html'')]\<rparr>"
    by (simp add: get_property_def EmailTemplateMap_def)
  have "sendCampaignEmail scripted 42 1700000000000 ''L1'' ''constructor'' ''creator-broadcast'' ''123''
        JUndefined ?w0 =
     (Inr (JObj [(''campaignId'', JStr ''camp-1''), (''segmentId'', JStr ''seg-1'')]),
      ?w2\<lparr>remote := [],
        trace := trace ?w2 @
               [Req (campaign_request ''creator-broadcast'' 1700000000000 (JStr ''seg-1'') 42
                       (JStr ''d-broadcast00001234567890abc'')),
                Req (schedule_request (JStr ''camp-1'') JUndefined)]\<rparr>)"
    by (simp add: sendCampaignEmail_def b t s[simplified] loadEmailTemplateConfig_def k
        sgClient_request_def scripted_def ok_def campaign_request_def schedule_request_def
        del: nat_digits.simps)
  then show "sendCampaignEmail scripted 42 1700000000000 ''L1'' ''constructor'' ''creator-broadcast'' ''123''
        JUndefined ?w0 =
     (Inr (JObj [(''campaignId'', JStr ''camp-1''), (''segmentId'', JStr ''seg-1'')]),
      \<lparr>remote = [],
       trace = [Req (segment_request ''L1'' ''constructor'' ''123''),
                Req (campaign_request ''creator-broadcast'' 1700000000000 (JStr ''seg-1'') 42
                       (JStr ''d-broadcast00001234567890abc'')),
                Req (schedule_request (JStr ''camp-1'') JUndefined)],
       templateCache = Some EmailTemplateMap,
       fieldMapCache = Some shipped_field_types,
       listCache = JNull\<rparr>)"
    by (simp add: initial_world_def campaign_script_def)
qed

section \<open>C9: the type check of the template data\<close>

text \<open>
  C9. When an entry of the template data has a declared type among string, boolean and
  array in the template's \<^verbatim>\<open>customFieldTypes\<close>, its value is not \<^verbatim>\<open>null\<close> and the type of
  the value does not match the declaration, \<^verbatim>\<open>sendSimpleEmail\<close> fails, with no request
  issued and the remote service untouched; in particular a string does not match a
  declared array. An entry whose value is \<^verbatim>\<open>null\<close> is skipped by the check, whatever its
  declared type: when the addresses are valid, the required fields are present and every
  entry is \<^verbatim>\<open>null\<close> or matches its declared type, validation passes and the mail request
  is issued.
\<close>

theorem sendSimpleEmail_type_check:
  "(get_property (fst (loadEmailTemplateConfig w)) templateKey = Own template
      \<and> customFieldTypes template = Some types
      \<and> (field, v) \<in> set dynamicTemplateData
      \<and> map_of types field = Some expected
      \<and> (expected = ''string'' \<or> expected = ''boolean'' \<or> expected = ''array'')
      \<and> v \<noteq> JNull
      \<and> \<not> type_matches expected v
    \<longrightarrow> isl (fst (sendSimpleEmail api recipient sender templateKey dynamicTemplateData cc bcc w))
        \<and> trace (snd (sendSimpleEmail api recipient sender templateKey dynamicTemplateData cc bcc w))
            = trace w
        \<and> remote (snd (sendSimpleEmail api recipient sender templateKey dynamicTemplateData cc bcc w))
            = remote w)
   \<and> \<not> type_matches ''array'' (JStr str)
   \<and> check_field_types types ((field, JNull) # rest) = check_field_types types rest
   \<and> (get_property (fst (loadEmailTemplateConfig w)) templateKey = Own template
      \<and> customFieldTypes template = Some types
      \<and> isValidEmail recipient \<and> isValidEmail sender
      \<and> \<not> invalid_address_list cc \<and> \<not> invalid_address_list bcc
      \<and> (\<forall>required \<in> set (requiredFields template). has_property dynamicTemplateData required)
      \<and> (\<forall>(field, v) \<in> set dynamicTemplateData.
            v = JNull
            \<or> (\<forall>expected. map_of types field = Some expected \<longrightarrow> type_matches expected v))
    \<longrightarrow> trace (snd (sendSimpleEmail api recipient sender templateKey dynamicTemplateData cc bcc w)) =
          trace w @ [Req (MailSend
             (JObj [(''to'', JStr recipient), (''from'', JStr sender),
                    (''templateId'', JStr (templateId template)),
                    (''dynamicTemplateData'', JObj dynamicTemplateData),
                    (''cc'', cc), (''bcc'', bcc)]))])"
proof (intro conjI impI)
  assume h: "get_property (fst (loadEmailTemplateConfig w)) templateKey = Own template
      \<and> customFieldTypes template = Some types
      \<and> (field, v) \<in> set dynamicTemplateData
      \<and> map_of types field = Some expected
      \<and> (expected = ''string'' \<or> expected = ''boolean'' \<or> expected = ''array'')
      \<and> v \<noteq> JNull
      \<and> \<not> type_matches expected v"
  then have own: "get_property (fst (loadEmailTemplateConfig w)) templateKey = Own template"
    and types: "customFieldTypes template = Some types"
    by simp_all
  from h have "check_field_types types dynamicTemplateData \<noteq> None"
    by (elim conjE) (rule check_field_types_mismatch)
  with types have bad: "check_custom_fields (customFieldTypes template) dynamicTemplateData \<noteq> None"
    by simp
  note r = sendSimpleEmail_rejected[OF own, of recipient sender cc bcc dynamicTemplateData api]
  from r bad show "isl (fst (sendSimpleEmail api recipient sender templateKey dynamicTemplateData cc bcc w))"
    by blast
  from r bad show "trace (snd (sendSimpleEmail api recipient sender templateKey dynamicTemplateData cc bcc w)) = trace w"
    by blast
  from r bad show "remote (snd (sendSimpleEmail api recipient sender templateKey dynamicTemplateData cc bcc w)) = remote w"
    by blast
next
  show "\<not> type_matches ''array'' (JStr str)"
    by (simp add: type_matches_def)
next
  show "check_field_types types ((field, JNull) # rest) = check_field_types types rest"
    by (rule check_field_types_null)
next
  assume h: "get_property (fst (loadEmailTemplateConfig w)) templateKey = Own template
      \<and> customFieldTypes template = Some types
      \<and> isValidEmail recipient \<and> isValidEmail sender
      \<and> \<not> invalid_address_list cc \<and> \<not> invalid_address_list bcc
      \<and> (\<forall>required \<in> set (requiredFields template). has_property dynamicTemplateData required)
      \<and> (\<forall>(field, v) \<in> set dynamicTemplateData.
            v = JNull
            \<or> (\<forall>expected. map_of types field = Some expected \<longrightarrow> type_matches expected v))"
  then have own: "get_property (fst (loadEmailTemplateConfig w)) templateKey = Own template"
    and types: "customFieldTypes template = Some types"
    and addr: "isValidEmail recipient" "isValidEmail sender" "\<not> invalid_address_list cc"
      "\<not> invalid_address_list bcc"
    and req: "\<forall>required \<in> set (requiredFields template). has_property dynamicTemplateData required"
    and ok: "\<forall>(field, v) \<in> set dynamicTemplateData.
            v = JNull
            \<or> (\<forall>expected. map_of types field = Some expected \<longrightarrow> type_matches expected v)"
    by simp_all
  from req have none: "filter (\<lambda>field. \<not> has_property dynamicTemplateData field) (requiredFields template) = []"
    by (simp add: filter_empty_conv)
  from ok types have pass: "check_custom_fields (customFieldTypes template) dynamicTemplateData = None"
    by (simp add: check_field_types_pass)
  show "trace (snd (sendSimpleEmail api recipient sender templateKey dynamicTemplateData cc bcc w)) =
          trace w @ [Req (MailSend
             (JObj [(''to'', JStr recipient), (''from'', JStr sender),
                    (''templateId'', JStr (templateId template)),
                    (''dynamicTemplateData'', JObj dynamicTemplateData),
                    (''cc'', cc), (''bcc'', bcc)]))]"
    by (rule sendSimpleEmail_sent[OF own addr none pass])
qed


theorem sendSimpleEmail_type_check_witness:
  "isl (fst (sendSimpleEmail scripted ''test@example.com'' ''sender@example.com'' ''new-order-email''
          [(''order_id'', JStr ''123ABC''), (''user_name'', JStr ''Test User''),
           (''items'', JStr ''T-Shirt'')] JUndefined JUndefined (initial_world [ok JNull])))
   \<and> trace (snd (sendSimpleEmail scripted ''test@example.com'' ''sender@example.com'' ''new-order-email''
          [(''order_id'', JStr ''123ABC''), (''user_name'', JStr ''Test User''),
           (''items'', JStr ''T-Shirt'')] JUndefined JUndefined (initial_world [ok JNull]))) = []
   \<and> trace (snd (sendSimpleEmail scripted ''test@example.com'' ''sender@example.com'' ''new-order-email''
          [(''order_id'', JNull), (''user_name'', JStr ''Test User''), (''items'', JNull)]
          JUndefined JUndefined (initial_world [ok JNull]))) =
       [Req (MailSend
          (JObj [(''to'', JStr ''test@example.com''), (''from'', JStr ''sender@example.com''),
                 (''templateId'', JStr ''d-1234567890abcdef1234567890abcdef''),
                 (''dynamicTemplateData'',
                    JObj [(''order_id'', JNull), (''user_name'', JStr ''Test User''), (''items'', JNull)]),
                 (''cc'', JUndefined), (''bcc'', JUndefined)]))]"
proof -
  let ?t = "\<lparr>templateId = ''d-1234567890abcdef1234567890abcdef'',
        path = ''templates/new-order-email.html'',
        supportsLooping = True,
        requiredFields = [''order_id'', ''user_name'', ''items''],
        description = ''Template for new order notifications with item loop'',
        customFieldTypes =
          Some [(''order_id'', ''string''), (''user_name'', ''string''), (''items'', ''array'')]\<rparr>"
  let ?types = "[(''order_id'', ''string''), (''user_name'', ''string''), (''items'', ''array'')]"
  let ?w = "initial_world [ok JNull]"
  have v: "isValidEmail ''test@example.com''" "isValidEmail ''sender@example.com''"
    by (simp_all add: isValidEmail_def emailRegex_def not_space_at_def is_whitespace_def)
  have own: "get_property (fst (loadEmailTemplateConfig ?w)) ''new-order-email'' = Own ?t"
    by (simp add: loadEmailTemplateConfig_def initial_world_def get_property_def EmailTemplateMap_def)
  note mismatch = sendSimpleEmail_type_check[where w = ?w and templateKey = "''new-order-email''"
      and template = ?t and types = ?types and field = "''items''" and v = "JStr ''T-Shirt''"
      and expected = "''array''" and api = scripted and recipient = "''test@example.com''"
      and sender = "''sender@example.com''" and cc = JUndefined and bcc = JUndefined
      and dynamicTemplateData = "[(''order_id'', JStr ''123ABC''), (''user_name'', JStr ''Test User''),
           (''items'', JStr ''T-Shirt'')]", THEN conjunct1, THEN mp]
  note accepted = sendSimpleEmail_type_check[where w = ?w and templateKey = "''new-order-email''"
      and template = ?t and types = ?types and api = scripted and recipient = "''test@example.com''"
      and sender = "''sender@example.com''" and cc = JUndefined and bcc = JUndefined
      and dynamicTemplateData = "[(''order_id'', JNull), (''user_name'', JStr ''Test User''),
           (''items'', JNull)]", THEN conjunct2, THEN conjunct2, THEN conjunct2, THEN mp]
  have a: "isl (fst (sendSimpleEmail scripted ''test@example.com'' ''sender@example.com'' ''new-order-email''
          [(''order_id'', JStr ''123ABC''), (''user_name'', JStr ''Test User''),
           (''items'', JStr ''T-Shirt'')] JUndefined JUndefined ?w))
   \<and> trace (snd (sendSimpleEmail scripted ''test@example.com'' ''sender@example.com'' ''new-order-email''
          [(''order_id'', JStr ''123ABC''), (''user_name'', JStr ''Test User''),
           (''items'', JStr ''T-Shirt'')] JUndefined JUndefined ?w)) = trace ?w
   \<and> remote (snd (sendSimpleEmail scripted ''test@example.com'' ''sender@example.com'' ''new-order-email''
          [(''order_id'', JStr ''123ABC''), (''user_name'', JStr ''Test User''),
           (''items'', JStr ''T-Shirt'')] JUndefined JUndefined ?w)) = remote ?w"
    by (rule mismatch) (simp add: own type_matches_def)
  have b: "trace (snd (sendSimpleEmail scripted ''test@example.com'' ''sender@example.com'' ''new-order-email''
          [(''order_id'', JNull), (''user_name'', JStr ''Test User''), (''items'', JNull)]
          JUndefined JUndefined ?w)) =
       trace ?w @ [Req (MailSend
          (JObj [(''to'', JStr ''test@example.com''), (''from'', JStr ''sender@example.com''),
                 (''templateId'', JStr (templateId ?t)),
                 (''dynamicTemplateData'',
                    JObj [(''order_id'', JNull), (''user_name'', JStr ''Test User''), (''items'', JNull)]),
                 (''cc'', JUndefined), (''bcc'', JUndefined)]))]"
    by (rule accepted) (simp add: own v type_matches_def has_property_iff)
  from a b show ?thesis by (simp add: initial_world_def)
qed

section \<open>C10: declared types outside the type set\<close>

text \<open>
  C10. An entry of the template data whose declared type is none of string, boolean and
  array is not type-checked: the check goes on to the next entry whatever the value is.
  So when the addresses are valid, the required fields are present and every declared type
  of the data is outside the type set, validation passes for every value and the mail
  request is issued. The shipped registry declares such types: with the template
  \<^verbatim>\<open>password-reset\<close> (\<^verbatim>\<open>reset_link: url\<close>, \<^verbatim>\<open>user_email: email\<close>) any two values pass,
  and with \<^verbatim>\<open>creator-broadcast\<close> (\<^verbatim>\<open>message_body: html\<close>) any message body passes.
\<close>

theorem sendSimpleEmail_undeclared_types_unchecked:
  "(map_of types field = Some expected
      \<and> expected \<noteq> ''string'' \<and> expected \<noteq> ''boolean'' \<and> expected \<noteq> ''array''
    \<longrightarrow> check_field_types types ((field, v) # rest) = check_field_types types rest)
   \<and> (get_property (fst (loadEmailTemplateConfig w)) templateKey = Own template
      \<and> customFieldTypes template = Some types
      \<and> isValidEmail recipient \<and> isValidEmail sender
      \<and> \<not> invalid_address_list cc \<and> \<not> invalid_address_list bcc
      \<and> (\<forall>required \<in> set (requiredFields template). has_property dynamicTemplateData required)
      \<and> (\<forall>(field, v) \<in> set dynamicTemplateData.
            \<forall>expected. map_of types field = Some expected
              \<longrightarrow> expected \<noteq> ''string'' \<and> expected \<noteq> ''boolean'' \<and> expected \<noteq> ''array'')
    \<longrightarrow> trace (snd (sendSimpleEmail api recipient sender templateKey dynamicTemplateData cc bcc w)) =
          trace w @ [Req (MailSend
             (JObj [(''to'', JStr recipient), (''from'', JStr sender),
                    (''templateId'', JStr (templateId template)),
                    (''dynamicTemplateData'', JObj dynamicTemplateData),
                    (''cc'', cc), (''bcc'', bcc)]))])
   \<and> ((templateCache w = None \<or> templateCache w = Some EmailTemplateMap)
      \<and> isValidEmail recipient \<and> isValidEmail sender
      \<and> \<not> invalid_address_list cc \<and> \<not> invalid_address_list bcc
    \<longrightarrow> trace (snd (sendSimpleEmail api recipient sender ''password-reset''
                       [(''reset_link'', link), (''user_email'', email)] cc bcc w)) =
          trace w @ [Req (MailSend
             (JObj [(''to'', JStr recipient), (''from'', JStr sender),
                    (''templateId'', JStr ''d-abcdef1234567890abcdef1234567890''),
                    (''dynamicTemplateData'', JObj [(''reset_link'', link), (''user_email'', email)]),
                    (''cc'', cc), (''bcc'', bcc)]))]
        \<and> trace (snd (sendSimpleEmail api recipient sender ''creator-broadcast''
                       [(''creator_name'', JStr name), (''message_body'', message)] cc bcc w)) =
          trace w @ [Req (MailSend
             (JObj [(''to'', JStr recipient), (''from'', JStr sender),
                    (''templateId'', JStr ''d-broadcast00001234567890abc''),
                    (''dynamicTemplateData'',
                       JObj [(''creator_name'', JStr name), (''message_body'', message)]),
                    (''cc'', cc), (''bcc'', bcc)]))])"
proof (intro conjI impI)
  assume "map_of types field = Some expected
      \<and> expected \<noteq> ''string'' \<and> expected \<noteq> ''boolean'' \<and> expected \<noteq> ''array''"
  then show "check_field_types types ((field, v) # rest) = check_field_types types rest"
    by (elim conjE) (rule check_field_types_untyped)
next
  assume h: "get_property (fst (loadEmailTemplateConfig w)) templateKey = Own template
      \<and> customFieldTypes template = Some types
      \<and> isValidEmail recipient \<and> isValidEmail sender
      \<and> \<not> invalid_address_list cc \<and> \<not> invalid_address_list bcc
      \<and> (\<forall>required \<in> set (requiredFields template). has_property dynamicTemplateData required)
      \<and> (\<forall>(field, v) \<in> set dynamicTemplateData.
            \<forall>expected. map_of types field = Some expected
              \<longrightarrow> expected \<noteq> ''string'' \<and> expected \<noteq> ''boolean'' \<and> expected \<noteq> ''array'')"
  then have own: "get_property (fst (loadEmailTemplateConfig w)) templateKey = Own template"
    and types: "customFieldTypes template = Some types"
    and addr: "isValidEmail recipient" "isValidEmail sender" "\<not> invalid_address_list cc"
      "\<not> invalid_address_list bcc"
    and req: "\<forall>required \<in> set (requiredFields template). has_property dynamicTemplateData required"
    and other: "\<forall>(field, v) \<in> set dynamicTemplateData.
            \<forall>expected. map_of types field = Some expected
              \<longrightarrow> expected \<noteq> ''string'' \<and> expected \<noteq> ''boolean'' \<and> expected \<noteq> ''array''"
    by simp_all
  from req have none: "filter (\<lambda>field. \<not> has_property dynamicTemplateData field) (requiredFields template) = []"
    by (simp add: filter_empty_conv)
  from other have "\<forall>(field, v) \<in> set dynamicTemplateData.
            v = JNull \<or> (\<forall>expected. map_of types field = Some expected \<longrightarrow> type_matches expected v)"
    using type_matches_other by fastforce
  with types have pass: "check_custom_fields (customFieldTypes template) dynamicTemplateData = None"
    by (simp add: check_field_types_pass)
  show "trace (snd (sendSimpleEmail api recipient sender templateKey dynamicTemplateData cc bcc w)) =
          trace w @ [Req (MailSend
             (JObj [(''to'', JStr recipient), (''from'', JStr sender),
                    (''templateId'', JStr (templateId template)),
                    (''dynamicTemplateData'', JObj dynamicTemplateData),
                    (''cc'', cc), (''bcc'', bcc)]))]"
    by (rule sendSimpleEmail_sent[OF own addr none pass])
next
  assume h: "(templateCache w = None \<or> templateCache w = Some EmailTemplateMap)
      \<and> isValidEmail recipient \<and> isValidEmail sender
      \<and> \<not> invalid_address_list cc \<and> \<not> invalid_address_list bcc"
  then have cfg: "fst (loadEmailTemplateConfig w) = EmailTemplateMap"
    and addr: "isValidEmail recipient" "isValidEmail sender" "\<not> invalid_address_list cc"
      "\<not> invalid_address_list bcc"
    by (simp_all add: loadEmailTemplateConfig_shipped)
  let ?reset = "\<lparr>templateId = ''d-abcdef1234567890abcdef1234567890'',
        path = ''templates/password-reset.html'',
        supportsLooping = False,
        requiredFields = [''reset_link'', ''user_email''],
        description = ''Password reset email with single link'',
        customFieldTypes = Some [(''reset_link'', ''url''), (''user_email'', ''email'')]\<rparr>"
  have own: "get_property (fst (loadEmailTemplateConfig w)) ''password-reset'' = Own ?reset"
    by (simp add: cfg get_property_def EmailTemplateMap_def)
  have none: "filter (\<lambda>field. \<not> has_property [(''reset_link'', link), (''user_email'', email)] field)
                (requiredFields ?reset) = []"
    by (simp add: has_property_iff)
  have pass: "check_custom_fields (customFieldTypes ?reset) [(''reset_link'', link), (''user_email'', email)] = None"
    by (simp add: check_field_types_untyped[where expected = "''url''"]
        check_field_types_untyped[where expected = "''email''"] del: check_field_types.simps(2))
  show "trace (snd (sendSimpleEmail api recipient sender ''password-reset''
                       [(''reset_link'', link), (''user_email'', email)] cc bcc w)) =
          trace w @ [Req (MailSend
             (JObj [(''to'', JStr recipient), (''from'', JStr sender),
                    (''templateId'', JStr ''d-abcdef1234567890abcdef1234567890''),
                    (''dynamicTemplateData'', JObj [(''reset_link'', link), (''user_email'', email)]),
                    (''cc'', cc), (''bcc'', bcc)]))]"
    using sendSimpleEmail_sent[OF own addr none pass, of api] by simp
  let ?bc = "\<lparr>templateId = ''d-broadcast00001234567890abc'',
        path = ''templates/creator-broadcast.html'',
        supportsLooping = False,
        requiredFields = [''creator_name'', ''message_body''],
        description = ''Creator-wide message sent to subscribed fans'',
        customFieldTypes = Some [(''creator_name'', ''string''), (''message_body'', ''html'')]\<rparr>"
  have own: "get_property (fst (loadEmailTemplateConfig w)) ''creator-broadcast'' = Own ?bc"
    by (simp add: cfg get_property_def EmailTemplateMap_def)
  have none: "filter (\<lambda>field. \<not> has_property [(''creator_name'', JStr name), (''message_body'', message)] field)
                (requiredFields ?bc) = []"
    by (simp add: has_property_iff)
  have pass: "check_custom_fields (customFieldTypes ?bc)
                [(''creator_name'', JStr name), (''message_body'', message)] = None"
    by (simp add: check_field_types_untyped[where expected = "''html''"]
        check_field_types_declared[where expected = "''string''"] type_matches_def
        del: check_field_types.simps(2))
  show "trace (snd (sendSimpleEmail api recipient sender ''creator-broadcast''
                       [(''creator_name'', JStr name), (''message_body'', message)] cc bcc w)) =
          trace w @ [Req (MailSend
             (JObj [(''to'', JStr recipient), (''from'', JStr sender),
                    (''templateId'', JStr ''d-broadcast00001234567890abc''),
                    (''dynamicTemplateData'',
                       JObj [(''creator_name'', JStr name), (''message_body'', message)]),
                    (''cc'', cc), (''bcc'', bcc)]))]"
    using sendSimpleEmail_sent[OF own addr none pass, of api] by simp
qed

theorem sendSimpleEmail_undeclared_types_unchecked_witness:
  "trace (snd (sendSimpleEmail scripted ''test@example.com'' ''sender@example.com'' ''password-reset''
                 [(''reset_link'', JNum 42), (''user_email'', JArr [JBool True])] JUndefined JUndefined
                 (initial_world [ok JNull]))) =
     [Req (MailSend
        (JObj [(''to'', JStr ''test@example.com''), (''from'', JStr ''sender@example.com''),
               (''templateId'', JStr ''d-abcdef1234567890abcdef1234567890''),
               (''dynamicTemplateData'',
                  JObj [(''reset_link'', JNum 42), (''user_email'', JArr [JBool True])]),
               (''cc'', JUndefined), (''bcc'', JUndefined)]))]
   \<and> trace (snd (sendSimpleEmail scripted ''test@example.com'' ''sender@example.com'' ''creator-broadcast''
                 [(''creator_name'', JStr ''Ada''), (''message_body'', JBool False)] JUndefined JUndefined
                 (initial_world [ok JNull]))) =
     [Req (MailSend
        (JObj [(''to'', JStr ''test@example.com''), (''from'', JStr ''sender@example.com''),
               (''templateId'', JStr ''d-broadcast00001234567890abc''),
               (''dynamicTemplateData'',
                  JObj [(''creator_name'', JStr ''Ada''), (''message_body'', JBool False)]),
               (''cc'', JUndefined), (''bcc'', JUndefined)]))]
   \<and> check_field_types [(''reset_link'', ''url''), (''user_email'', ''email'')]
         [(''reset_link'', JNum 42)] = check_field_types [(''reset_link'', ''url''), (''user_email'', ''email'')] []"
proof -
  let ?reset = "\<lparr>templateId = ''d-abcdef1234567890abcdef1234567890'',
        path = ''templates/password-reset.html'',
        supportsLooping = False,
        requiredFields = [''reset_link'', ''user_email''],
        description = ''Password reset email with single link'',
        customFieldTypes = Some [(''reset_link'', ''url''), (''user_email'', ''email'')]\<rparr>"
  let ?w = "initial_world [ok JNull]"
  have v: "isValidEmail ''test@example.com''" "isValidEmail ''sender@example.com''"
    by (simp_all add: isValidEmail_def emailRegex_def not_space_at_def is_whitespace_def)
  have own: "get_property (fst (loadEmailTemplateConfig ?w)) ''password-reset'' = Own ?reset"
    by (simp add: loadEmailTemplateConfig_def initial_world_def get_property_def EmailTemplateMap_def)
  note T = sendSimpleEmail_undeclared_types_unchecked[where w = ?w
      and api = scripted and recipient = "''test@example.com''" and sender = "''sender@example.com''"
      and cc = JUndefined and bcc = JUndefined and link = "JNum 42" and email = "JArr [JBool True]"
      and name = "''Ada''" and message = "JBool False"
      and types = "[(''reset_link'', ''url''), (''user_email'', ''email'')]" and field = "''reset_link''"
      and expected = "''url''" and v = "JNum 42" and rest = "[]"
      and templateKey = "''password-reset''" and template = ?reset
      and dynamicTemplateData = "[(''reset_link'', JNum 42), (''user_email'', JArr [JBool True])]"]
  have a: "check_field_types [(''reset_link'', ''url''), (''user_email'', ''email'')]
         [(''reset_link'', JNum 42)] = check_field_types [(''reset_link'', ''url''), (''user_email'', ''email'')] []"
    by (rule T[THEN conjunct1, THEN mp]) simp
  have b: "trace (snd (sendSimpleEmail scripted ''test@example.com'' ''sender@example.com'' ''password-reset''
                 [(''reset_link'', JNum 42), (''user_email'', JArr [JBool True])] JUndefined JUndefined ?w)) =
     trace ?w @ [Req (MailSend
        (JObj [(''to'', JStr ''test@example.com''), (''from'', JStr ''sender@example.com''),
               (''templateId'', JStr (templateId ?reset)),
               (''dynamicTemplateData'',
                  JObj [(''reset_link'', JNum 42), (''user_email'', JArr [JBool True])]),
               (''cc'', JUndefined), (''bcc'', JUndefined)]))]"
    by (rule T[THEN conjunct2, THEN conjunct1, THEN mp]) (simp add: own v has_property_iff)
  from T[THEN conjunct2, THEN conjunct2, THEN mp] v a b show ?thesis
    by (simp add: initial_world_def)
qed

section \<open>What the two send operations do check before a request\<close>

text \<open>
  \<^verbatim>\<open>sendCampaignEmail\<close>: a tag that is neither a key of the field type map of the shipped
  registry nor the name of a property of \<^verbatim>\<open>Object.prototype\<close> fails with
  \<^verbatim>\<open>Invalid tag: <tag>\<close>, with no request issued and the remote service untouched.
\<close>

theorem sendCampaignEmail_invalid_tag:
  assumes "fieldMapCache w = None \<and> (templateCache w = None \<or> templateCache w = Some EmailTemplateMap)
           \<or> fieldMapCache w = Some shipped_field_types"
    and "tag \<notin> fst ` set shipped_field_types"
    and "tag \<notin> set object_prototype_keys"
  shows "fst (sendCampaignEmail api envSenderId now listId tag templateKey senderId sendAt w) =
           Inl (Error (''Invalid tag: '' @ tag))
         \<and> trace (snd (sendCampaignEmail api envSenderId now listId tag templateKey senderId sendAt w))
             = trace w
         \<and> remote (snd (sendCampaignEmail api envSenderId now listId tag templateKey senderId sendAt w))
             = remote w"
proof -
  from assms(2,3) have a: "get_property shipped_field_types tag = Absent"
    by (simp add: get_property_def map_of_eq_None_iff[THEN iffD2])
  show ?thesis
  proof (cases "fieldMapCache w")
    case None
    with assms(1) have "templateCache w = None \<or> templateCache w = Some EmailTemplateMap"
      by simp
    with None show ?thesis
      by (simp add: sendCampaignEmail_def buildFieldType_fresh a)
  next
    case (Some m)
    with assms(1) have "fieldMapCache w = Some shipped_field_types" by simp
    then show ?thesis
      by (simp add: sendCampaignEmail_def buildFieldType_cached a)
  qed
qed

theorem sendCampaignEmail_invalid_tag_witness:
  "fst (sendCampaignEmail scripted 42 1700000000000 ''L1'' ''weekly_newsletter'' ''creator-broadcast''
          ''123'' JUndefined (initial_world campaign_script)) =
     Inl (Error ''Invalid tag: weekly_newsletter'')
   \<and> trace (snd (sendCampaignEmail scripted 42 1700000000000 ''L1'' ''weekly_newsletter''
          ''creator-broadcast'' ''123'' JUndefined (initial_world campaign_script))) = []
   \<and> remote (snd (sendCampaignEmail scripted 42 1700000000000 ''L1'' ''weekly_newsletter''
          ''creator-broadcast'' ''123'' JUndefined (initial_world campaign_script))) = campaign_script"
  using sendCampaignEmail_invalid_tag[of "initial_world campaign_script" "''weekly_newsletter''"
      scripted 42 1700000000000 "''L1''" "''creator-broadcast''" "''123''" JUndefined]
  by (simp add: initial_world_def shipped_field_types_def object_prototype_keys_def)

text \<open>
  \<^verbatim>\<open>sendSimpleEmail\<close>: a template key that is not in the shipped registry fails, with no
  request issued and the remote service untouched; when the addresses are valid and the
  key is not the name of a property of \<^verbatim>\<open>Object.prototype\<close>, the error is
  \<^verbatim>\<open>Unknown templateKey: <templateKey>\<close>.
\<close>

theorem sendSimpleEmail_unknown_templateKey:
  assumes "templateCache w = None \<or> templateCache w = Some EmailTemplateMap"
    and "templateKey \<notin> fst ` set EmailTemplateMap"
  shows "isl (fst (sendSimpleEmail api recipient sender templateKey dynamicTemplateData cc bcc w))
         \<and> trace (snd (sendSimpleEmail api recipient sender templateKey dynamicTemplateData cc bcc w)) = trace w
         \<and> remote (snd (sendSimpleEmail api recipient sender templateKey dynamicTemplateData cc bcc w)) = remote w
         \<and> (isValidEmail recipient \<and> isValidEmail sender
              \<and> \<not> invalid_address_list cc \<and> \<not> invalid_address_list bcc
              \<and> templateKey \<notin> set object_prototype_keys
            \<longrightarrow> fst (sendSimpleEmail api recipient sender templateKey dynamicTemplateData cc bcc w) =
                  Inl (Error (''Unknown templateKey: '' @ templateKey)))"
proof -
  from assms(1) have cfg: "fst (loadEmailTemplateConfig w) = EmailTemplateMap"
    by (rule loadEmailTemplateConfig_shipped)
  from assms(2) have none: "map_of EmailTemplateMap templateKey = None"
    by (simp add: map_of_eq_None_iff)
  then have no: "\<forall>t. get_property (fst (loadEmailTemplateConfig w)) templateKey \<noteq> Own t"
    by (simp add: cfg get_property_Own_iff)
  have "isl (fst (sendSimpleEmail api recipient sender templateKey dynamicTemplateData cc bcc w))
         \<and> trace (snd (sendSimpleEmail api recipient sender templateKey dynamicTemplateData cc bcc w)) = trace w
         \<and> remote (snd (sendSimpleEmail api recipient sender templateKey dynamicTemplateData cc bcc w)) = remote w"
    using no by (intro sendSimpleEmail_unknown_key) simp_all
  moreover have "isValidEmail recipient \<and> isValidEmail sender
              \<and> \<not> invalid_address_list cc \<and> \<not> invalid_address_list bcc
              \<and> templateKey \<notin> set object_prototype_keys
            \<longrightarrow> fst (sendSimpleEmail api recipient sender templateKey dynamicTemplateData cc bcc w) =
                  Inl (Error (''Unknown templateKey: '' @ templateKey))"
    using cfg none
    by (cases "loadEmailTemplateConfig w") (auto simp: sendSimpleEmail_def get_property_def)
  ultimately show ?thesis by blast
qed

theorem sendSimpleEmail_unknown_templateKey_witness:
  "fst (sendSimpleEmail scripted ''test@example.com'' ''sender@example.com'' ''no-such-template''
          [] JUndefined JUndefined (initial_world [ok JNull])) =
     Inl (Error ''Unknown templateKey: no-such-template'')
   \<and> trace (snd (sendSimpleEmail scripted ''test@example.com'' ''sender@example.com'' ''no-such-template''
          [] JUndefined JUndefined (initial_world [ok JNull]))) = []"
proof -
  have v: "isValidEmail ''test@example.com''" "isValidEmail ''sender@example.com''"
    by (simp_all add: isValidEmail_def emailRegex_def not_space_at_def is_whitespace_def)
  show ?thesis
    using sendSimpleEmail_unknown_templateKey[of "initial_world [ok JNull]" "''no-such-template''"
        scripted "''test@example.com''" "''sender@example.com''" "[]" JUndefined JUndefined] v
    by (simp add: initial_world_def EmailTemplateMap_def object_prototype_keys_def)
qed

section \<open>What the retry helper does retry\<close>

text \<open>
  \<^verbatim>\<open>_withRetry\<close>, for every operation \<open>fn\<close>, retry count \<open>n\<close>, delay \<open>d\<close> and maximum delay
  \<open>m\<close>: a call that leaves the parameters out runs with 3, 500 and 3000; the helper starts
  at attempt 1; at an attempt within the count a success is returned at once, and a
  failure is retried, after a wait of \<open>min (d * attempt) m\<close>, exactly when attempts remain
  and the error has a \<^verbatim>\<open>response\<close> object whose \<^verbatim>\<open>statusCode\<close> is the number 429; every
  other failure is propagated at once with no wait. No rejection of the HTTP client is such
  an error. An operation that throws such an error at every attempt is tried \<open>n\<close> times,
  with the waits \<open>min (d * 1) m, ..., min (d * (n - 1)) m\<close>: the multiplier is linear.
\<close>

theorem withRetry_retries_response_statusCode_429:
  "withRetry_defaults fn w = withRetry fn 3 500 3000 w
   \<and> withRetry fn n d m w = withRetry_from 1 fn n d m w
   \<and> (attempt \<le> n \<longrightarrow>
        withRetry_from attempt fn n d m w =
          (case fn w of
             (Inr v, w') \<Rightarrow> (Inr (Some v), w')
           | (Inl err, w') \<Rightarrow>
               if isRateLimit err \<and> attempt < n
               then withRetry_from (attempt + 1) fn n d m (wait (min (d * attempt) m) w')
               else (Inl err, w')))
   \<and> (isRateLimit err \<longleftrightarrow>
        (\<exists>code message kvs. err = ResponseError code message (JObj kvs)
           \<and> map_of kvs ''statusCode'' = Some (JNum 429)))
   \<and> \<not> isRateLimit (thrown rejected)
   \<and> (1 \<le> n \<and> isRateLimit err \<longrightarrow>
        withRetry (\<lambda>w. (Inl err, w)) n d m w =
          (Inl err, w\<lparr>trace := trace w @ map (\<lambda>k. Wait (min (d * k) m)) [1..n - 1]\<rparr>))"
proof (intro conjI impI)
  show "withRetry_defaults fn w = withRetry fn 3 500 3000 w"
    by (simp add: withRetry_defaults_def default_retries_def default_delay_def default_maxDelay_def)
  show "withRetry fn n d m w = withRetry_from 1 fn n d m w"
    by (simp add: withRetry_def)
  show "isRateLimit err \<longleftrightarrow>
        (\<exists>code message kvs. err = ResponseError code message (JObj kvs)
           \<and> map_of kvs ''statusCode'' = Some (JNum 429))"
    by (rule isRateLimit_iff)
  show "\<not> isRateLimit (thrown rejected)"
    by (rule isRateLimit_thrown)
next
  assume le: "attempt \<le> n"
  obtain r w' where f: "fn w = (r, w')" by (cases "fn w")
  show "withRetry_from attempt fn n d m w =
          (case fn w of
             (Inr v, w') \<Rightarrow> (Inr (Some v), w')
           | (Inl err, w') \<Rightarrow>
               if isRateLimit err \<and> attempt < n
               then withRetry_from (attempt + 1) fn n d m (wait (min (d * attempt) m) w')
               else (Inl err, w'))"
  proof (cases r)
    case (Inr v)
    with f le show ?thesis by (simp add: withRetry_from_success)
  next
    case (Inl e)
    show ?thesis
    proof (cases "isRateLimit e \<and> attempt < n")
      case True
      with f Inl show ?thesis by (simp add: withRetry_from_rate_limited)
    next
      case False
      then consider "\<not> isRateLimit e" | "attempt = n" using le by force
      then show ?thesis
      proof cases
        case 1
        with f Inl le show ?thesis by (simp add: withRetry_from_other_failure)
      next
        case 2
        with f Inl show ?thesis by (simp add: withRetry_from_last_failure)
      qed
    qed
  qed
next
  assume "1 \<le> n \<and> isRateLimit err"
  then show "withRetry (\<lambda>w. (Inl err, w)) n d m w =
          (Inl err, w\<lparr>trace := trace w @ map (\<lambda>k. Wait (min (d * k) m)) [1..n - 1]\<rparr>)"
    by (simp add: withRetry_def withRetry_from_always_rate_limited)
qed

theorem withRetry_retries_response_statusCode_429_witness:
  "withRetry (\<lambda>w. (Inl (ResponseError 429 ''Too Many Requests'' (JObj [(''statusCode'', JNum 429)])), w))
       3 500 800 (initial_world ([] :: unit list))
     = (Inl (ResponseError 429 ''Too Many Requests'' (JObj [(''statusCode'', JNum 429)])),
        \<lparr>remote = [], trace = [Wait 500, Wait 800],
         templateCache = None, fieldMapCache = None, listCache = JNull\<rparr>)"
proof -
  let ?e = "ResponseError 429 ''Too Many Requests'' (JObj [(''statusCode'', JNum 429)])"
  note T = withRetry_retries_response_statusCode_429[of "\<lambda>w. (Inl ?e, w)" "initial_world ([] :: unit list)"
      3 500 800 1 ?e]
  have r: "isRateLimit ?e"
    by (rule T[THEN conjunct2, THEN conjunct2, THEN conjunct2, THEN conjunct1, THEN iffD2]) simp
  have "withRetry (\<lambda>w. (Inl ?e, w)) 3 500 800 (initial_world ([] :: unit list)) =
      (Inl ?e, (initial_world ([] :: unit list))
         \<lparr>trace := trace (initial_world ([] :: unit list)) @ map (\<lambda>k. Wait (min (500 * k) 800)) [1..3 - 1]\<rparr>)"
    by (rule T[THEN conjunct2, THEN conjunct2, THEN conjunct2, THEN conjunct2, THEN conjunct2, THEN mp])
      (simp add: r)
  then show ?thesis
    by (simp add: initial_world_def upto_rec1)
qed

end
